theory Spec2Isabelle
  imports Main "HOL-Library.Code_Target_Numeral"
begin

section \<open>The embedding\<close>

subsection \<open>Common vocabulary\<close>

text \<open>
  The engine works on bit sequences (the third-party \<^verbatim>\<open>bitarray\<close>): a list of booleans,
  most significant bit first inside a byte. Byte strings (\<^verbatim>\<open>bytes\<close>) are lists of
  naturals below 256.
\<close>

type_synonym bitarray = "bool list"

type_synonym bytes = "nat list"

text \<open>
  The exceptions the modelled code raises or lets through. \<open>StructError\<close> is
  \<^verbatim>\<open>struct.error\<close>, \<open>RecursionError\<close> is the interpreter's own exception for a call
  stack that grew too deep; the others are named as in the source.
\<close>

datatype exn =
    Exception
  | TypeError
  | ValueError
  | IndexError
  | StructError
  | RecursionError
  | ParsingException
  | InvalidParsingPathException
  | MaxFuzzingException
  | RecursionException

text \<open>
  A Python generator is modelled by what it yields, in order, and by how it ends:
  \<open>None\<close> when it is exhausted, \<open>Some e\<close> when it raises \<open>e\<close> after the last yield.
\<close>

type_synonym 'a generator = "'a list \<times> exn option"

subsection \<open>Types/BitArray.py\<close>

text \<open>
  A \<^verbatim>\<open>BitArray\<close> type carries an optional fixed value and the \<^verbatim>\<open>size\<close> attribute, a
  pair of optional bounds in bits. The attribute is kept by \<^verbatim>\<open>AbstractType\<close>; it is
  taken here as it is read by \<^verbatim>\<open>canParse\<close>.
\<close>

record BitArray =
  ba_value :: "bitarray option"
  ba_size :: "int option \<times> int option"

text \<open>
  \<^verbatim>\<open>canParse\<close>, lines 232-257. The two \<^verbatim>\<open>TypeError\<close> branches need \<^verbatim>\<open>data\<close> to be
  \<^verbatim>\<open>None\<close> or not a bitarray, which the type of \<open>data\<close> excludes.
\<close>

definition BitArray_canParse :: "BitArray \<Rightarrow> bitarray \<Rightarrow> bool" where
  "BitArray_canParse self data =
     (if length data = 0 then False
      else if (case ba_value self of None \<Rightarrow> False | Some v \<Rightarrow> v = data) then True
      else
        (let nbMinBits = fst (ba_size self);
             nbMaxBits = snd (ba_size self);
             nbBitsData = int (length data)
         in if (case nbMinBits of None \<Rightarrow> False | Some lo \<Rightarrow> lo > nbBitsData) then False
            else if (case nbMaxBits of None \<Rightarrow> False | Some hi \<Rightarrow> hi < nbBitsData) then False
            else True))"

text \<open>The bit-length of \<open>data\<close> lies within the declared bounds; a missing bound is no bound.\<close>

definition within_size :: "int option \<times> int option \<Rightarrow> bitarray \<Rightarrow> bool" where
  "within_size sz data =
     ((case fst sz of None \<Rightarrow> True | Some lo \<Rightarrow> lo \<le> int (length data)) \<and>
      (case snd sz of None \<Rightarrow> True | Some hi \<Rightarrow> int (length data) \<le> hi))"

subsection \<open>Types/Integer.py\<close>

text \<open>
  The enumerations \<^verbatim>\<open>UnitSize\<close>, \<^verbatim>\<open>Endianness\<close> and \<^verbatim>\<open>Sign\<close> are declared by
  \<^verbatim>\<open>AbstractType\<close>; their members are the ones the docstring of \<^verbatim>\<open>Integer\<close> lists.
  \<open>unit_value\<close> is \<^verbatim>\<open>int(unitSize.value)\<close>.
\<close>

datatype UnitSize = SIZE_1 | SIZE_4 | SIZE_8 | SIZE_16 | SIZE_24 | SIZE_32 | SIZE_64

datatype Endianness = BIG | LITTLE

datatype Sign = SIGNED | UNSIGNED

fun unit_value :: "UnitSize \<Rightarrow> nat" where
  "unit_value SIZE_1 = 1"
| "unit_value SIZE_4 = 4"
| "unit_value SIZE_8 = 8"
| "unit_value SIZE_16 = 16"
| "unit_value SIZE_24 = 24"
| "unit_value SIZE_32 = 32"
| "unit_value SIZE_64 = 64"

text \<open>\<^verbatim>\<open>getMinStorageValue\<close> and \<^verbatim>\<open>getMaxStorageValue\<close>, lines 701-712.\<close>

definition getMinStorageValue :: "UnitSize \<Rightarrow> Sign \<Rightarrow> int" where
  "getMinStorageValue unitSize sign =
     (if sign = UNSIGNED then 0 else - ((2 ^ unit_value unitSize) div 2))"

definition getMaxStorageValue :: "UnitSize \<Rightarrow> Sign \<Rightarrow> int" where
  "getMaxStorageValue unitSize sign =
     (if sign = UNSIGNED then 2 ^ unit_value unitSize - 1
      else (2 ^ unit_value unitSize) div 2 - 1)"

text \<open>
  \<^verbatim>\<open>Integer.computeFormat\<close>, lines 601-628: the two-character format handed to the
  \<^verbatim>\<open>struct\<close> module, or \<^verbatim>\<open>ValueError\<close> for a unit size other than 8, 16, 32 and 64.
\<close>

definition upper_char :: "char \<Rightarrow> char" where
  "upper_char c =
     (if c = CHR ''b'' then CHR ''B'' else if c = CHR ''h'' then CHR ''H''
      else if c = CHR ''i'' then CHR ''I'' else if c = CHR ''q'' then CHR ''Q'' else c)"

definition computeFormat :: "UnitSize \<Rightarrow> Endianness \<Rightarrow> Sign \<Rightarrow> exn + string" where
  "computeFormat unitSize endianness sign =
     (let endianFormat = (if endianness = BIG then CHR ''>'' else CHR ''<'') in
      case (if unitSize = SIZE_8 then Some (CHR ''b'')
            else if unitSize = SIZE_16 then Some (CHR ''h'')
            else if unitSize = SIZE_32 then Some (CHR ''i'')
            else if unitSize = SIZE_64 then Some (CHR ''q'')
            else None) of
        None \<Rightarrow> Inl ValueError
      | Some unitFormat \<Rightarrow>
          Inr [endianFormat, if sign = UNSIGNED then upper_char unitFormat else unitFormat])"

subsubsection \<open>The struct module\<close>

text \<open>
  \<^verbatim>\<open>struct.pack\<close> and \<^verbatim>\<open>struct.unpack\<close> of the standard library, for the formats
  \<^verbatim>\<open>computeFormat\<close> builds: a byte order (\<^verbatim>\<open>>\<close> big, \<^verbatim>\<open><\<close> little) and one integer
  code. A lower-case code is signed (two's complement), an upper-case one unsigned.
  Both raise \<^verbatim>\<open>struct.error\<close>: \<^verbatim>\<open>pack\<close> for a number outside the range of the code,
  \<^verbatim>\<open>unpack\<close> for a buffer of the wrong length.
\<close>

definition struct_code :: "char \<Rightarrow> (nat \<times> bool) option" where
  "struct_code c =
     (if c = CHR ''b'' then Some (1, True) else if c = CHR ''B'' then Some (1, False)
      else if c = CHR ''h'' then Some (2, True) else if c = CHR ''H'' then Some (2, False)
      else if c = CHR ''i'' then Some (4, True) else if c = CHR ''I'' then Some (4, False)
      else if c = CHR ''q'' then Some (8, True) else if c = CHR ''Q'' then Some (8, False)
      else None)"

primrec le_bytes :: "nat \<Rightarrow> nat \<Rightarrow> bytes" where
  "le_bytes 0 x = []"
| "le_bytes (Suc n) x = (x mod 256) # le_bytes n (x div 256)"

primrec from_le_bytes :: "bytes \<Rightarrow> nat" where
  "from_le_bytes [] = 0"
| "from_le_bytes (b # bs) = b + 256 * from_le_bytes bs"

definition byte_order :: "char \<Rightarrow> bytes \<Rightarrow> bytes" where
  "byte_order e bs = (if e = CHR ''>'' then rev bs else bs)"

definition struct_pack :: "string \<Rightarrow> int \<Rightarrow> exn + bytes" where
  "struct_pack fmt v =
     (case fmt of
        [e, c] \<Rightarrow>
          (case struct_code c of
             None \<Rightarrow> Inl StructError
           | Some (n, signed) \<Rightarrow>
               if (if signed then - (2 ^ (8 * n - 1)) \<le> v \<and> v < 2 ^ (8 * n - 1)
                   else 0 \<le> v \<and> v < 2 ^ (8 * n))
               then Inr (byte_order e (le_bytes n (nat (v mod 2 ^ (8 * n)))))
               else Inl StructError)
      | _ \<Rightarrow> Inl StructError)"

definition struct_unpack :: "string \<Rightarrow> bytes \<Rightarrow> exn + int" where
  "struct_unpack fmt buffer =
     (case fmt of
        [e, c] \<Rightarrow>
          (case struct_code c of
             None \<Rightarrow> Inl StructError
           | Some (n, signed) \<Rightarrow>
               if length buffer \<noteq> n then Inl StructError
               else
                 (let u = int (from_le_bytes (byte_order e buffer))
                  in Inr (if signed \<and> u \<ge> 2 ^ (8 * n - 1) then u - 2 ^ (8 * n) else u)))
      | _ \<Rightarrow> Inl StructError)"

subsubsection \<open>Integer.decode and Integer.encode\<close>

text \<open>\<^verbatim>\<open>Integer.decode\<close>, lines 492-497: from an integer to its raw bytes.\<close>

definition Integer_decode :: "int \<Rightarrow> UnitSize \<Rightarrow> Endianness \<Rightarrow> Sign \<Rightarrow> exn + bytes" where
  "Integer_decode data unitSize endianness sign =
     (case computeFormat unitSize endianness sign of
        Inl e \<Rightarrow> Inl e
      | Inr f \<Rightarrow> struct_pack f data)"

text \<open>
  \<^verbatim>\<open>range(start, end, inc)\<close> for the two steps the loop of \<^verbatim>\<open>encode\<close> uses.
\<close>

definition py_range :: "int \<Rightarrow> int \<Rightarrow> int \<Rightarrow> int list" where
  "py_range start end' inc =
     (if inc = 1 then [start..end' - 1] else if inc = - 1 then rev [end' + 1..start] else [])"

text \<open>
  The loop of \<^verbatim>\<open>Integer.encode\<close>, lines 574-596, over the values of \<^verbatim>\<open>i\<close> still to
  come, with \<^verbatim>\<open>iWord\<close> and \<^verbatim>\<open>finalValue\<close> as they stand. The unit is a multiple of 8
  whenever \<^verbatim>\<open>computeFormat\<close> has returned, so the float divisions by 8 are exact.
  \<open>lastI\<close> is \<^verbatim>\<open>end - inc\<close>.
\<close>

fun encode_loop ::
  "string \<Rightarrow> nat \<Rightarrow> Endianness \<Rightarrow> nat \<Rightarrow> int \<Rightarrow> bytes \<Rightarrow> int list \<Rightarrow> nat \<Rightarrow> int \<Rightarrow> exn + int"
where
  "encode_loop perWordFormat unit endianness padding_nullbytes lastI data [] iWord finalValue =
     Inr finalValue"
| "encode_loop perWordFormat unit endianness padding_nullbytes lastI data (i # rest) iWord finalValue =
     (let startPos = iWord * unit div 8;
          endPos = iWord * unit div 8 + unit div 8;
          wordData = take (endPos - startPos) (drop startPos data);
          wordData =
            (if padding_nullbytes > 0 \<and> i = lastI
             then (if endianness = BIG then replicate padding_nullbytes 0 @ wordData
                   else wordData @ replicate padding_nullbytes 0)
             else wordData)
      in case struct_unpack perWordFormat wordData of
           Inl e \<Rightarrow> Inl e
         | Inr unpackedWord \<Rightarrow>
             encode_loop perWordFormat unit endianness padding_nullbytes lastI data rest
               (iWord + 1) (finalValue + unpackedWord * 2 ^ (unit * iWord)))"

text \<open>\<^verbatim>\<open>Integer.encode\<close>, lines 548-598: from raw bytes to an integer.\<close>

definition Integer_encode :: "bytes \<Rightarrow> UnitSize \<Rightarrow> Endianness \<Rightarrow> Sign \<Rightarrow> exn + int" where
  "Integer_encode data unitSize endianness sign =
     (case computeFormat unitSize endianness sign of
        Inl e \<Rightarrow> Inl e
      | Inr perWordFormat \<Rightarrow>
          (let unit = unit_value unitSize;
               nbWords = length data * 8 div unit;
               rest = length data * 8 mod unit;
               nbWords = (if rest \<noteq> 0 then nbWords + 1 else nbWords);
               padding_nullbytes = (if rest \<noteq> 0 then (unit - rest) div 8 else 0);
               start = (if endianness = BIG then int nbWords else 0);
               end' = (if endianness = BIG then 0 else int nbWords);
               inc = (if endianness = BIG then - 1 else 1)
           in encode_loop perWordFormat unit endianness padding_nullbytes (end' - inc) data
                (py_range start end' inc) 0 0))"

subsection \<open>Fuzzing/AlternativeMutator.py\<close>

text \<open>
  The state of an \<^verbatim>\<open>AlternativeMutator\<close>: the recursion limit \<^verbatim>\<open>_maxDepth\<close>, the counter
  \<^verbatim>\<open>_currentDepth\<close>, the state of the position mutator (a
  \<^verbatim>\<open>PseudoRandomIntegerMutator\<close>) and the state the class inherits from
  \<^verbatim>\<open>DomainMutator\<close>. Neither of the last two classes is among the source files: their
  states are type parameters, and their methods \<^verbatim>\<open>DomainMutator.generate\<close> (which returns
  nothing and may raise) and \<^verbatim>\<open>generateInt\<close> are parameters of \<open>generate\<close>.
\<close>

record ('p, 'd) AlternativeMutator =
  maxDepth :: int
  currentDepth :: int
  positionMutator :: 'p
  domainMutator :: 'd

definition DEFAULT_MAX_DEPTH :: int where
  "DEFAULT_MAX_DEPTH = 20"

text \<open>\<^verbatim>\<open>__init__\<close>, lines 108-118: the counter starts at 0.\<close>

definition AlternativeMutator_init :: "int \<Rightarrow> 'p \<Rightarrow> 'd \<Rightarrow> ('p, 'd) AlternativeMutator" where
  "AlternativeMutator_init maxDepth' position parent =
     \<lparr>maxDepth = maxDepth', currentDepth = 0, positionMutator = position,
      domainMutator = parent\<rparr>"

text \<open>\<^verbatim>\<open>generate\<close>, lines 222-230.\<close>

definition AlternativeMutator_generate ::
  "('d \<Rightarrow> exn option \<times> 'd) \<Rightarrow> ('p \<Rightarrow> (exn + int) \<times> 'p) \<Rightarrow>
   ('p, 'd) AlternativeMutator \<Rightarrow> (exn + int) \<times> ('p, 'd) AlternativeMutator"
where
  "AlternativeMutator_generate super_generate generateInt self =
     (case super_generate (domainMutator self) of
        (Some e, parent) \<Rightarrow> (Inl e, self\<lparr>domainMutator := parent\<rparr>)
      | (None, parent) \<Rightarrow>
          (let self = self\<lparr>domainMutator := parent, currentDepth := currentDepth self + 1\<rparr>
           in if currentDepth self \<ge> maxDepth self then (Inl RecursionException, self)
              else (case generateInt (positionMutator self) of
                      (pos, position) \<Rightarrow> (pos, self\<lparr>positionMutator := position\<rparr>))))"

text \<open>
  \<open>k\<close> successive calls of \<^verbatim>\<open>generate\<close> on the same mutator, each outcome kept: the
  mutator outlives a call that raised. \<open>successes\<close> counts the calls that returned.
\<close>

primrec generate_calls ::
  "('d \<Rightarrow> exn option \<times> 'd) \<Rightarrow> ('p \<Rightarrow> (exn + int) \<times> 'p) \<Rightarrow> nat \<Rightarrow>
   ('p, 'd) AlternativeMutator \<Rightarrow> (exn + int) list \<times> ('p, 'd) AlternativeMutator"
where
  "generate_calls super_generate generateInt 0 self = ([], self)"
| "generate_calls super_generate generateInt (Suc k) self =
     (case AlternativeMutator_generate super_generate generateInt self of
        (r, self') \<Rightarrow>
          (case generate_calls super_generate generateInt k self' of
             (rs, self'') \<Rightarrow> (r # rs, self'')))"

definition successes :: "(exn + int) list \<Rightarrow> nat" where
  "successes rs = length (filter (\<lambda>r. \<not> isl r) rs)"

subsection \<open>Paths and memory\<close>

text \<open>
  \<^verbatim>\<open>bitarray.frombytes\<close> with \<^verbatim>\<open>endian='big'\<close>: the eight bits of each byte, the most
  significant first.
\<close>

primrec bits_of_byte_from :: "nat \<Rightarrow> nat \<Rightarrow> bitarray" where
  "bits_of_byte_from 0 b = []"
| "bits_of_byte_from (Suc k) b = odd (b div 2 ^ k) # bits_of_byte_from k b"

definition frombytes :: "bytes \<Rightarrow> bitarray" where
  "frombytes bs = concat (map (bits_of_byte_from 8) bs)"

text \<open>
  Modelled from the spec: the classes \<^verbatim>\<open>GenericPath\<close>, \<^verbatim>\<open>ParsingPath\<close>,
  \<^verbatim>\<open>SpecializingPath\<close> and \<^verbatim>\<open>Memory\<close> are not among the source files. A path is "a
  persistent map from variable to bit-slice" with a memory, "Map<VarId, BitSlice>"; a
  variable is named by its identifier, a natural number. In the source the bits still to
  be parsed by a variable are the data assigned to it before its \<^verbatim>\<open>parse\<close> is called, and
  the bits it consumed are the data assigned to it afterwards.
\<close>

record Path =
  dataAssignedToVariable :: "nat \<rightharpoonup> bitarray"
  memory :: "nat \<rightharpoonup> bitarray"

text \<open>
  Modelled from the spec: \<^verbatim>\<open>getData(variable)\<close> of the missing path classes reads the
  slice assigned to a variable; \<open>None\<close> stands for the lookup that fails.
\<close>

definition getData :: "Path \<Rightarrow> nat \<Rightarrow> bitarray option" where
  "getData path variable = dataAssignedToVariable path variable"

text \<open>
  Modelled from the spec: \<^verbatim>\<open>assignData(data, variable)\<close> of the missing path classes
  assigns a slice to a variable.
\<close>

definition assignData :: "Path \<Rightarrow> bitarray \<Rightarrow> nat \<Rightarrow> Path" where
  "assignData path data variable =
     path\<lparr>dataAssignedToVariable := (dataAssignedToVariable path)(variable \<mapsto> data)\<rparr>"

text \<open>
  Modelled from the spec: \<^verbatim>\<open>addResult(variable, result)\<close> of the missing path classes
  records the bits a variable parsed or produced. The callbacks of pending relations it
  would run are not modelled: no variable of this development is a relation.
\<close>

definition addResult :: "Path \<Rightarrow> nat \<Rightarrow> bitarray \<Rightarrow> Path" where
  "addResult path variable result = assignData path result variable"

text \<open>
  Modelled from the spec: \<^verbatim>\<open>duplicate()\<close> and \<^verbatim>\<open>clone()\<close> of the missing path classes
  copy a path, so that a branch does not see the writes of its siblings. Paths are values
  here, and the copy is the path itself.
\<close>

definition duplicate :: "Path \<Rightarrow> Path" where
  "duplicate path = path"

text \<open>
  Modelled from the spec: \<^verbatim>\<open>memory.memorize(variable, value)\<close> of the missing class
  \<^verbatim>\<open>Memory\<close> records a learned value in the memory of the path.
\<close>

definition memorize :: "Path \<Rightarrow> nat \<Rightarrow> bitarray \<Rightarrow> Path" where
  "memorize path variable v = path\<lparr>memory := (memory path)(variable \<mapsto> v)\<rparr>"

subsection \<open>Variables/Leafs/AbstractVariableLeaf.py: parse\<close>

text \<open>
  The members of the enumeration \<^verbatim>\<open>Scope\<close> that \<^verbatim>\<open>parse\<close> and \<^verbatim>\<open>specialize\<close> name.
\<close>

datatype Scope = CONSTANT | MESSAGE | SESSION | NONE

text \<open>
  The four methods \<^verbatim>\<open>AbstractVariableLeaf\<close> declares abstract (lines 121-135). Each
  returns a list of paths or raises.
\<close>

record 'p leaf_methods =
  isDefined :: "'p \<Rightarrow> bool"
  domainCMP :: "'p \<Rightarrow> bool \<Rightarrow> bool \<Rightarrow> exn + 'p list"
  valueCMP :: "'p \<Rightarrow> bool \<Rightarrow> bool \<Rightarrow> exn + 'p list"
  learn :: "'p \<Rightarrow> bool \<Rightarrow> bool \<Rightarrow> exn + 'p list"

text \<open>
  The handler of lines 112-114: a \<^verbatim>\<open>ParsingException\<close> becomes the empty list, any other
  exception goes through.
\<close>

definition except_ParsingException :: "exn + 'p list \<Rightarrow> exn + 'p list" where
  "except_ParsingException r =
     (case r of Inl e \<Rightarrow> if e = ParsingException then Inr [] else Inl e | Inr paths \<Rightarrow> Inr paths)"

text \<open>
  \<^verbatim>\<open>AbstractVariableLeaf.parse\<close>, lines 85-116. The last line of the method is reached
  only for a scope outside the enumeration.
\<close>

definition AbstractVariableLeaf_parse ::
  "'p leaf_methods \<Rightarrow> Scope option \<Rightarrow> 'p \<Rightarrow> bool \<Rightarrow> bool \<Rightarrow> exn + 'p list"
where
  "AbstractVariableLeaf_parse self scope parsingPath acceptCallBack carnivorous =
     (case scope of
        None \<Rightarrow> Inl Exception
      | Some scope \<Rightarrow>
          except_ParsingException
            (if isDefined self parsingPath then
               (if scope = CONSTANT \<or> scope = SESSION
                then valueCMP self parsingPath acceptCallBack carnivorous
                else if scope = MESSAGE
                then learn self parsingPath acceptCallBack carnivorous
                else domainCMP self parsingPath acceptCallBack carnivorous)
             else
               (if scope = CONSTANT then Inr []
                else if scope = MESSAGE \<or> scope = SESSION
                then learn self parsingPath acceptCallBack carnivorous
                else domainCMP self parsingPath acceptCallBack carnivorous)))"

subsection \<open>Data leaves\<close>

text \<open>
  Modelled from the spec: \<^verbatim>\<open>AbstractType\<close> is not among the source files. Of the
  capabilities of a type, parsing needs the bounds of its length in bits, "(min_bits,
  max_bits?)" with no maximum when the type is unbounded, and \<^verbatim>\<open>can_parse\<close>.
\<close>

record AbstractType =
  type_size :: "nat \<times> nat option"
  type_canParse :: "bitarray \<Rightarrow> bool"

text \<open>
  Modelled from the spec: the class \<^verbatim>\<open>Data\<close>, the leaf that wraps a type, is not
  among the source files. A leaf has an identifier, a scope and a type.
\<close>

record Data =
  var_id :: nat
  scope :: "Scope option"
  dataType :: AbstractType

text \<open>
  Modelled from the spec: \<^verbatim>\<open>Data.isDefined\<close> is missing; a leaf is defined when "the
  variable is already defined in memory".
\<close>

definition Data_isDefined :: "Data \<Rightarrow> Path \<Rightarrow> bool" where
  "Data_isDefined self path = (memory path (var_id self) \<noteq> None)"

text \<open>
  Modelled from the spec: the candidate lengths of \<^verbatim>\<open>Data.domainCMP\<close>, which is missing:
  the lengths "in [min, min(max, remaining)]", and up to the remaining input in
  carnivorous mode. Their order is the one the specification gives: "the shortest
  accepted length is yielded first", the paths coming "accepted-length ascending".
\<close>

definition candidate_lengths :: "AbstractType \<Rightarrow> nat \<Rightarrow> bool \<Rightarrow> nat list" where
  "candidate_lengths t remaining carnivorous =
     (let lo = fst (type_size t);
          hi = (if carnivorous then remaining
                else case snd (type_size t) of None \<Rightarrow> remaining | Some m \<Rightarrow> min m remaining)
      in [lo ..< Suc hi])"

text \<open>
  Modelled from the spec: of the candidates of the missing \<^verbatim>\<open>Data.domainCMP\<close>, the ones
  accepted: "for each, test type.can_parse(slice)".
\<close>

definition accepted_lengths :: "AbstractType \<Rightarrow> bitarray \<Rightarrow> bool \<Rightarrow> nat list" where
  "accepted_lengths t content carnivorous =
     filter (\<lambda>n. type_canParse t (take n content))
       (candidate_lengths t (length content) carnivorous)"

text \<open>
  Modelled from the spec: \<^verbatim>\<open>Data.domainCMP\<close> is missing; it is to "yield one path per
  accepted length", the slice of that length being the result of the leaf.
\<close>

definition Data_domainCMP :: "Data \<Rightarrow> Path \<Rightarrow> bool \<Rightarrow> bool \<Rightarrow> exn + Path list" where
  "Data_domainCMP self path acceptCallBack carnivorous =
     (case getData path (var_id self) of
        None \<Rightarrow> Inl Exception
      | Some content \<Rightarrow>
          Inr (map (\<lambda>n. addResult (duplicate path) (var_id self) (take n content))
                 (accepted_lengths (dataType self) content carnivorous)))"

text \<open>
  Modelled from the spec: \<^verbatim>\<open>Data.learn\<close> is missing; it is "as domainCMP but
  additionally record the accepted slice in memory".
\<close>

definition Data_learn :: "Data \<Rightarrow> Path \<Rightarrow> bool \<Rightarrow> bool \<Rightarrow> exn + Path list" where
  "Data_learn self path acceptCallBack carnivorous =
     (case getData path (var_id self) of
        None \<Rightarrow> Inl Exception
      | Some content \<Rightarrow>
          Inr (map (\<lambda>n. memorize (addResult (duplicate path) (var_id self) (take n content))
                          (var_id self) (take n content))
                 (accepted_lengths (dataType self) content carnivorous)))"

text \<open>
  Modelled from the spec: \<^verbatim>\<open>Data.valueCMP\<close> is missing: "the next bits must equal the
  memorized value; advance cursor; assign".
\<close>

definition Data_valueCMP :: "Data \<Rightarrow> Path \<Rightarrow> bool \<Rightarrow> bool \<Rightarrow> exn + Path list" where
  "Data_valueCMP self path acceptCallBack carnivorous =
     (case getData path (var_id self) of
        None \<Rightarrow> Inl Exception
      | Some content \<Rightarrow>
          (case memory path (var_id self) of
             None \<Rightarrow> Inl Exception
           | Some expected \<Rightarrow>
               if length expected \<le> length content \<and> take (length expected) content = expected
               then Inr [addResult (duplicate path) (var_id self) expected]
               else Inr []))"

text \<open>
  A \<^verbatim>\<open>Data\<close> leaf as an \<^verbatim>\<open>AbstractVariableLeaf\<close>, and its \<^verbatim>\<open>parse\<close>, the inherited one.
\<close>

definition Data_methods :: "Data \<Rightarrow> Path leaf_methods" where
  "Data_methods self =
     \<lparr>isDefined = Data_isDefined self, domainCMP = Data_domainCMP self,
      valueCMP = Data_valueCMP self, learn = Data_learn self\<rparr>"

definition Data_parse :: "Data \<Rightarrow> Path \<Rightarrow> bool \<Rightarrow> bool \<Rightarrow> exn + Path list" where
  "Data_parse self = AbstractVariableLeaf_parse (Data_methods self) (scope self)"

text \<open>
  A \<^verbatim>\<open>BitArray\<close> as the type of a leaf: its \<^verbatim>\<open>canParse\<close> is the one of the source.
\<close>

definition BitArray_type :: "BitArray \<Rightarrow> nat \<times> nat option \<Rightarrow> AbstractType" where
  "BitArray_type b sz = \<lparr>type_size = sz, type_canParse = BitArray_canParse b\<rparr>"

subsection \<open>Parser/FieldParser.py\<close>

text \<open>
  Of a \<^verbatim>\<open>Field\<close>, \<^verbatim>\<open>FieldParser.parse\<close> reads the domain only.
\<close>

record 'v Field =
  domain :: "'v option"

text \<open>
  \<^verbatim>\<open>FieldParser.parse\<close>, lines 193-213, for the parser built by
  \<^verbatim>\<open>FieldParser(field, lastField)\<close>. \<open>ident\<close> gives the identifier of a variable and
  \<open>variableParser_parse\<close> is \<^verbatim>\<open>VariableParser(domain).parse\<close>.
\<close>

definition FieldParser_parse ::
  "('v \<Rightarrow> nat) \<Rightarrow> ('v \<Rightarrow> Path \<Rightarrow> bool \<Rightarrow> Path generator) \<Rightarrow> 'v Field \<Rightarrow> bool \<Rightarrow> Path \<Rightarrow>
   Path generator"
where
  "FieldParser_parse ident variableParser_parse field lastField parsingPath =
     (case domain field of
        None \<Rightarrow> ([], Some Exception)
      | Some d \<Rightarrow>
          (case getData parsingPath (ident d) of
             None \<Rightarrow> ([], Some Exception)
           | Some data \<Rightarrow>
               variableParser_parse d (assignData parsingPath data (ident d)) lastField))"

text \<open>
  Modelled from the spec: \<^verbatim>\<open>VariableParser\<close> is not among the source files. The parser
  is a "recursive descent over the variable tree" that dispatches on the kind of the
  variable: on a leaf it yields the paths of the leaf's \<^verbatim>\<open>parse\<close>, in their order.
\<close>

definition VariableParser_parse_leaf :: "Data \<Rightarrow> Path \<Rightarrow> bool \<Rightarrow> Path generator" where
  "VariableParser_parse_leaf variable parsingPath carnivorous =
     (case Data_parse variable parsingPath True carnivorous of
        Inl e \<Rightarrow> ([], Some e)
      | Inr paths \<Rightarrow> (paths, None))"

text \<open>
  The length of the slice a path assigns to a variable.
\<close>

definition slice_length :: "Path \<Rightarrow> nat \<Rightarrow> nat" where
  "slice_length path variable = (case getData path variable of None \<Rightarrow> 0 | Some s \<Rightarrow> length s)"

subsubsection \<open>An example type\<close>

text \<open>
  Modelled from the spec: the type \<^verbatim>\<open>String\<close> is not among the source files. With
  \<^verbatim>\<open>nbChars=(lo, hi)\<close> it holds \<open>lo\<close> to \<open>hi\<close> characters; on ASCII text a character is
  a byte, so that a slice is accepted when it is a whole number of bytes.
\<close>

definition String_nbChars :: "nat \<Rightarrow> nat \<Rightarrow> AbstractType" where
  "String_nbChars lo hi =
     \<lparr>type_size = (8 * lo, Some (8 * hi)),
      type_canParse = (\<lambda>data. data \<noteq> [] \<and> length data mod 8 = 0)\<rparr>"

subsection \<open>Variables/Nodes/Alt.py\<close>

text \<open>
  What a callback of an \<^verbatim>\<open>Alt\<close> returns: an integer, or a value of another kind.
\<close>

datatype cbk_result = IntResult int | OtherResult

text \<open>
  An \<^verbatim>\<open>Alt\<close> node: its identifier, its children in the order of their declaration
  (variables are named by their identifiers) and its optional callback.
\<close>

record Alt =
  alt_id :: nat
  children :: "nat list"
  callback :: "(Path \<Rightarrow> nat list \<Rightarrow> cbk_result) option"

subsubsection \<open>Alt.parse\<close>

text \<open>
  The inner loop of \<^verbatim>\<open>Alt.parse\<close>, lines 173-177: each path of the child gets the
  bits of the child as the result of the \<^verbatim>\<open>Alt\<close> and is yielded.
\<close>

fun Alt_yield :: "nat \<Rightarrow> nat \<Rightarrow> Path list \<Rightarrow> Path generator" where
  "Alt_yield self_id child [] = ([], None)"
| "Alt_yield self_id child (childParsingPath # rest) =
     (case getData childParsingPath child of
        None \<Rightarrow> ([], Some Exception)
      | Some v \<Rightarrow>
          (case Alt_yield self_id child rest of
             (yielded, ended) \<Rightarrow> (addResult childParsingPath self_id v # yielded, ended)))"

text \<open>
  The outer loop, lines 167-177, over the children paired with their paths.
  \<open>child_parse\<close> is the method \<^verbatim>\<open>parse\<close> of a child, found by dynamic dispatch in the
  source; it is called with the path only, as in line 172.
\<close>

fun Alt_parse_children ::
  "(nat \<Rightarrow> Path \<Rightarrow> Path generator) \<Rightarrow> nat \<Rightarrow> (nat \<times> Path) list \<Rightarrow> Path generator"
where
  "Alt_parse_children child_parse self_id [] = ([], None)"
| "Alt_parse_children child_parse self_id ((child, parsingPath) # rest) =
     (case child_parse child parsingPath of
        (childParsingPaths, ended) \<Rightarrow>
          (case Alt_yield self_id child childParsingPaths of
             (yielded, Some e) \<Rightarrow> (yielded, Some e)
           | (yielded, None) \<Rightarrow>
               (case ended of
                  Some e \<Rightarrow> (yielded, Some e)
                | None \<Rightarrow>
                    (case Alt_parse_children child_parse self_id rest of
                       (later, ended') \<Rightarrow> (yielded @ later, ended')))))"

text \<open>
  The paths of lines 156-164: the given path with the data assigned to the first child,
  and one duplicate of it per further child, with the data assigned to that child.
\<close>

definition Alt_parserPaths :: "Alt \<Rightarrow> Path \<Rightarrow> bitarray \<Rightarrow> (nat \<times> Path) list" where
  "Alt_parserPaths self parsingPath dataToParse =
     (let parsingPath = assignData parsingPath dataToParse (hd (children self));
          parserPaths =
            parsingPath #
            map (\<lambda>child. assignData (duplicate parsingPath) dataToParse child)
              (tl (children self))
      in zip (children self) parserPaths)"

text \<open>
  \<^verbatim>\<open>Alt.parse\<close>, lines 147-177. The callback of the node is not read.
\<close>

definition Alt_parse :: "(nat \<Rightarrow> Path \<Rightarrow> Path generator) \<Rightarrow> Alt \<Rightarrow> Path \<Rightarrow> Path generator" where
  "Alt_parse child_parse self parsingPath =
     (if length (children self) = 0 then ([], Some Exception)
      else
        (case getData parsingPath (alt_id self) of
           None \<Rightarrow> ([], Some Exception)
         | Some dataToParse \<Rightarrow>
             Alt_parse_children child_parse (alt_id self)
               (Alt_parserPaths self parsingPath dataToParse)))"

text \<open>
  A leaf for examples: the variable \<open>n\<close> accepts \<open>n\<close> bits that are all 1.
\<close>

definition ones_parse :: "nat \<Rightarrow> Path \<Rightarrow> Path generator" where
  "ones_parse child parsingPath =
     (case getData parsingPath child of
        None \<Rightarrow> ([], Some Exception)
      | Some content \<Rightarrow>
          (if child \<le> length content \<and> take child content = replicate child True
           then [addResult parsingPath child (take child content)] else [],
           None))"

text \<open>
  The child's \<^verbatim>\<open>parse\<close> on its path ends without an exception, and each path it yields
  assigns data to the child.
\<close>

definition child_ended_well :: "(nat \<Rightarrow> Path \<Rightarrow> Path generator) \<Rightarrow> nat \<times> Path \<Rightarrow> bool" where
  "child_ended_well child_parse cp =
     (snd (child_parse (fst cp) (snd cp)) = None \<and>
      list_all (\<lambda>q. getData q (fst cp) \<noteq> None) (fst (child_parse (fst cp) (snd cp))))"

text \<open>
  The successful paths of a child, each with the bits of the child recorded for the
  \<^verbatim>\<open>Alt\<close>.
\<close>

definition child_successes :: "(nat \<Rightarrow> Path \<Rightarrow> Path generator) \<Rightarrow> nat \<Rightarrow> nat \<times> Path \<Rightarrow> Path list" where
  "child_successes child_parse self_id cp =
     map (\<lambda>q. addResult q self_id (case getData q (fst cp) of None \<Rightarrow> [] | Some v \<Rightarrow> v))
       (fst (child_parse (fst cp) (snd cp)))"

subsubsection \<open>Alt.specialize\<close>

text \<open>
  What \<^verbatim>\<open>Alt.specialize\<close> calls and the source files do not hold, over a state \<open>'w\<close>
  that stands for the mutators and the random generator: \<^verbatim>\<open>fuzz.get\<close> (which gives the
  mutator of a variable, if any), \<^verbatim>\<open>mutator.generate\<close>, the index \<^verbatim>\<open>random.choice\<close>
  draws below a length, \<^verbatim>\<open>random.shuffle\<close>, and the method \<^verbatim>\<open>specialize\<close> of a child.
\<close>

record ('f, 'm, 'w) specializing =
  fuzz_get :: "'f \<Rightarrow> nat \<Rightarrow> 'm option"
  mutator_generate :: "'m \<Rightarrow> 'w \<Rightarrow> (exn + int) \<times> 'w"
  random_below :: "nat \<Rightarrow> 'w \<Rightarrow> nat \<times> 'w"
  random_shuffle :: "Path list \<Rightarrow> 'w \<Rightarrow> Path list \<times> 'w"
  child_specialize :: "nat \<Rightarrow> Path \<Rightarrow> 'f option \<Rightarrow> 'w \<Rightarrow> (exn + Path list) \<times> 'w"

text \<open>
  Indexing of a Python list: a negative index counts from the end.
\<close>

definition py_index :: "'a list \<Rightarrow> int \<Rightarrow> exn + 'a" where
  "py_index xs i =
     (if 0 \<le> i \<and> i < int (length xs) then Inr (xs ! nat i)
      else if i < 0 \<and> - int (length xs) \<le> i then Inr (xs ! nat (int (length xs) + i))
      else Inl IndexError)"

text \<open>
  The mutator of line 192, if \<^verbatim>\<open>fuzz is not None and fuzz.get(self) is not None\<close>.
\<close>

definition fuzz_mutator :: "('f, 'm, 'w) specializing \<Rightarrow> 'f option \<Rightarrow> nat \<Rightarrow> 'm option" where
  "fuzz_mutator env fuzz variable =
     (case fuzz of None \<Rightarrow> None | Some f \<Rightarrow> fuzz_get env f variable)"

text \<open>
  The choice of the child, lines 192-215.
\<close>

definition Alt_select_child ::
  "('f, 'm, 'w) specializing \<Rightarrow> Alt \<Rightarrow> Path \<Rightarrow> 'f option \<Rightarrow> 'w \<Rightarrow> (exn + nat) \<times> 'w"
where
  "Alt_select_child env self specializingPath fuzz w =
     (case fuzz_mutator env fuzz (alt_id self) of
        Some mutator \<Rightarrow>
          (case mutator_generate env mutator w of
             (Inl e, w') \<Rightarrow> (Inl e, w')
           | (Inr generated_value, w') \<Rightarrow>
               if 0 \<le> generated_value \<and> generated_value < int (length (children self))
               then (Inr (children self ! nat generated_value), w')
               else (Inl ValueError, w'))
      | None \<Rightarrow>
          (case callback self of
             Some cbk \<Rightarrow>
               (case cbk specializingPath (children self) of
                  OtherResult \<Rightarrow> (Inl Exception, w)
                | IntResult i_child \<Rightarrow> (py_index (children self) i_child, w))
           | None \<Rightarrow>
               (case random_below env (length (children self)) w of
                  (r, w') \<Rightarrow> (Inr (children self ! (r mod length (children self))), w'))))"

text \<open>
  The loop of lines 226-229: the bits of the child become the result of the \<^verbatim>\<open>Alt\<close>.
\<close>

fun Alt_record :: "nat \<Rightarrow> nat \<Rightarrow> Path list \<Rightarrow> exn + Path list" where
  "Alt_record self_id child [] = Inr []"
| "Alt_record self_id child (childSpecializingPath # rest) =
     (case getData childSpecializingPath child of
        None \<Rightarrow> Inl Exception
      | Some v \<Rightarrow>
          (case Alt_record self_id child rest of
             Inl e \<Rightarrow> Inl e
           | Inr recorded \<Rightarrow> Inr (addResult childSpecializingPath self_id v # recorded)))"

text \<open>
  \<^verbatim>\<open>Alt.specialize\<close>, lines 183-239.
\<close>

definition Alt_specialize ::
  "('f, 'm, 'w) specializing \<Rightarrow> Alt \<Rightarrow> Path \<Rightarrow> 'f option \<Rightarrow> 'w \<Rightarrow> (exn + Path list) \<times> 'w"
where
  "Alt_specialize env self specializingPath fuzz w =
     (if length (children self) = 0 then (Inl Exception, w)
      else
        (case Alt_select_child env self specializingPath fuzz w of
           (Inl e, w1) \<Rightarrow> (Inl e, w1)
         | (Inr child, w1) \<Rightarrow>
             (let newSpecializingPath = duplicate specializingPath
              in case child_specialize env child newSpecializingPath fuzz w1 of
                   (Inl e, w2) \<Rightarrow> (Inl e, w2)
                 | (Inr childSpecializingPaths, w2) \<Rightarrow>
                     (case Alt_record (alt_id self) child childSpecializingPaths of
                        Inl e \<Rightarrow> (Inl e, w2)
                      | Inr specializingPaths \<Rightarrow>
                          (case random_shuffle env specializingPaths w2 of
                             (shuffled, w3) \<Rightarrow> (Inr shuffled, w3))))))"

subsubsection \<open>The positions of the default mutator\<close>

text \<open>
  \<^verbatim>\<open>Integer._normalizeInterval\<close>, lines 304-324 of \<^verbatim>\<open>Integer.py\<close>: the interval of an
  integer type without a fixed value.
\<close>

definition Integer_normalizeInterval ::
  "(int option \<times> int option) option \<Rightarrow> UnitSize \<Rightarrow> Sign \<Rightarrow> exn + (int \<times> int)"
where
  "Integer_normalizeInterval interval unitSize sign =
     (let interval = (case interval of None \<Rightarrow> (None, None) | Some i \<Rightarrow> i);
          min_interval = getMinStorageValue unitSize sign;
          max_interval = getMaxStorageValue unitSize sign
      in if (case fst interval of None \<Rightarrow> False | Some lo \<Rightarrow> lo < min_interval) \<or>
            (case snd interval of None \<Rightarrow> False | Some hi \<Rightarrow> hi > max_interval)
         then Inl ValueError
         else Inr (case fst interval of None \<Rightarrow> min_interval | Some lo \<Rightarrow> lo,
                   case snd interval of None \<Rightarrow> max_interval | Some hi \<Rightarrow> hi))"

text \<open>
  The test of \<^verbatim>\<open>Integer.canParse\<close> on a type without a fixed value, lines 424-435: both
  ends of the interval belong to it, as they do for \<^verbatim>\<open>random.randint\<close> in
  \<^verbatim>\<open>Integer.generate\<close>.
\<close>

definition Integer_in_interval :: "int \<times> int \<Rightarrow> int \<Rightarrow> bool" where
  "Integer_in_interval size' int_data =
     (let minSize = min (fst size') (snd size'); maxSize = max (fst size') (snd size')
      in minSize \<le> int_data \<and> int_data \<le> maxSize)"

text \<open>
  The interval of the positions, line 116 of \<^verbatim>\<open>AlternativeMutator.py\<close>:
  \<^verbatim>\<open>uint8le(interval=(0, len(domain.children)))\<close>.
\<close>

definition AlternativeMutator_domain_interval :: "nat list \<Rightarrow> exn + (int \<times> int)" where
  "AlternativeMutator_domain_interval domain_children =
     Integer_normalizeInterval (Some (Some 0, Some (int (length domain_children))))
       SIZE_8 UNSIGNED"

subsubsection \<open>An example environment\<close>

text \<open>
  An environment for examples: the fuzzing configuration is the integer the mutator of
  the variable 0 generates, the random index is the state (which then grows by one),
  shuffling reverses, and the child \<open>n\<close> produces \<open>n\<close> bits that are all 1.
\<close>

definition example_specializing :: "(int, int, nat) specializing" where
  "example_specializing =
     \<lparr>fuzz_get = (\<lambda>f variable. if variable = 0 then Some f else None),
      mutator_generate = (\<lambda>mutator w. (Inr mutator, w)),
      random_below = (\<lambda>n w. (w, Suc w)),
      random_shuffle = (\<lambda>paths w. (rev paths, w)),
      child_specialize =
        (\<lambda>child path fuzz w. (Inr [addResult path child (replicate child True)], w))\<rparr>"

subsection \<open>Variables/Leafs/AbstractVariableLeaf.py: specialize\<close>

text \<open>
  The modes of a mutator: \<^verbatim>\<open>specialize\<close> names GENERATE, FIXED and MUTATE; the spec adds
  NONE.
\<close>

datatype FuzzingMode = GENERATE | MUTATE | FIXED | FuzzingMode_NONE

text \<open>
  What the fuzzing branch of \<^verbatim>\<open>specialize\<close> calls and the source files do not hold (or
  hold for keys of other kinds only), over a state \<open>'w\<close> that stands for the counters and
  generators of the mutators: \<^verbatim>\<open>fuzz.get\<close>, the \<^verbatim>\<open>mode\<close> of a mutator, its \<^verbatim>\<open>count()\<close>
  and its \<^verbatim>\<open>generate()\<close>, which returns bytes or raises.
\<close>

record ('f, 'm, 'w) leaf_fuzzing =
  leaf_fuzz_get :: "'f \<Rightarrow> nat \<Rightarrow> 'm option"
  mutator_mode :: "'m \<Rightarrow> FuzzingMode"
  mutator_count :: "'m \<Rightarrow> 'w \<Rightarrow> nat"
  leaf_mutator_generate :: "'m \<Rightarrow> 'w \<Rightarrow> (exn + bytes) \<times> 'w"

text \<open>
  The methods of the leaf that \<^verbatim>\<open>specialize\<close> calls outside of fuzzing; the class
  \<^verbatim>\<open>Data\<close> that defines them is not among the source files.
\<close>

record 'p leaf_specialize_methods =
  spec_isDefined :: "'p \<Rightarrow> bool"
  use :: "'p \<Rightarrow> bool \<Rightarrow> exn + 'p list"
  regenerate :: "'p \<Rightarrow> bool \<Rightarrow> exn + 'p list"
  regenerateAndMemorize :: "'p \<Rightarrow> bool \<Rightarrow> exn + 'p list"

text \<open>
  The mutator of the leaf, if \<^verbatim>\<open>fuzz is not None and fuzz.get(self) is not None\<close>.
\<close>

definition leaf_mutator :: "('f, 'm, 'w) leaf_fuzzing \<Rightarrow> 'f option \<Rightarrow> nat \<Rightarrow> 'm option" where
  "leaf_mutator env fuzz variable =
     (case fuzz of None \<Rightarrow> None | Some f \<Rightarrow> leaf_fuzz_get env f variable)"

text \<open>
  \<^verbatim>\<open>AbstractVariableLeaf.count\<close>, lines 73-80; \<open>dataType_count\<close> is \<^verbatim>\<open>self.dataType.count()\<close>.
\<close>

definition AbstractVariableLeaf_count ::
  "('f, 'm, 'w) leaf_fuzzing \<Rightarrow> nat \<Rightarrow> nat \<Rightarrow> 'f option \<Rightarrow> 'w \<Rightarrow> nat"
where
  "AbstractVariableLeaf_count env dataType_count self_id fuzz w =
     (case leaf_mutator env fuzz self_id of
        None \<Rightarrow> dataType_count
      | Some mutator \<Rightarrow>
          if mutator_mode env mutator = GENERATE \<or> mutator_mode env mutator = FIXED
          then mutator_count env mutator w
          else dataType_count)"

text \<open>
  The generator \<^verbatim>\<open>fuzz_generate\<close>, lines 152-169, with the number of rounds of its
  \<^verbatim>\<open>for\<close> loop still to run: \<^verbatim>\<open>MaxFuzzingException\<close> leaves the loop, any other
  exception leaves the generator.
\<close>

primrec fuzz_generate ::
  "('f, 'm, 'w) leaf_fuzzing \<Rightarrow> 'm \<Rightarrow> nat \<Rightarrow> Path \<Rightarrow> nat \<Rightarrow> 'w \<Rightarrow> Path generator \<times> 'w"
where
  "fuzz_generate env mutator self_id parsingPath 0 w = (([], None), w)"
| "fuzz_generate env mutator self_id parsingPath (Suc n) w =
     (case leaf_mutator_generate env mutator w of
        (Inl e, w') \<Rightarrow>
          if e = MaxFuzzingException then (([], None), w') else (([], Some e), w')
      | (Inr generated_value, w') \<Rightarrow>
          (let newParsingPath =
                 addResult (duplicate parsingPath) self_id (frombytes generated_value)
           in case fuzz_generate env mutator self_id parsingPath n w' of
                ((yielded, ended), w'') \<Rightarrow> ((newParsingPath # yielded, ended), w'')))"

text \<open>
  What \<^verbatim>\<open>specialize\<close> returns: the generator \<^verbatim>\<open>fuzz_generate\<close> (run to its end), the
  generator \<^verbatim>\<open>fuzz_mutate\<close> over the legitimate paths (it never ends by itself and is
  kept as the paths it runs over), the legitimate paths, or an exception.
\<close>

datatype 'p specialized =
    Fuzz_generated "'p generator"
  | Fuzz_mutated "'p list"
  | Legitimate "'p list"
  | Raised exn

text \<open>
  \<^verbatim>\<open>AbstractVariableLeaf.specialize\<close>, lines 143-211.
\<close>

definition AbstractVariableLeaf_specialize ::
  "('f, 'm, 'w) leaf_fuzzing \<Rightarrow> Path leaf_specialize_methods \<Rightarrow> nat \<Rightarrow> nat \<Rightarrow> Scope option \<Rightarrow>
   Path \<Rightarrow> 'f option \<Rightarrow> bool \<Rightarrow> 'w \<Rightarrow> Path specialized \<times> 'w"
where
  "AbstractVariableLeaf_specialize env self dataType_count self_id self_scope parsingPath fuzz
       acceptCallBack w =
     (case (case leaf_mutator env fuzz self_id of
              None \<Rightarrow> None
            | Some mutator \<Rightarrow>
                if mutator_mode env mutator = GENERATE \<or> mutator_mode env mutator = FIXED
                then Some mutator else None) of
        Some mutator \<Rightarrow>
          (case fuzz_generate env mutator self_id parsingPath
                  (AbstractVariableLeaf_count env dataType_count self_id fuzz w) w of
             (g, w') \<Rightarrow> (Fuzz_generated g, w'))
      | None \<Rightarrow>
          (case self_scope of
             None \<Rightarrow> (Raised Exception, w)
           | Some s \<Rightarrow>
               (case (if spec_isDefined self parsingPath then
                        (if s = CONSTANT \<or> s = SESSION
                         then use self parsingPath acceptCallBack
                         else if s = MESSAGE
                         then regenerateAndMemorize self parsingPath acceptCallBack
                         else regenerate self parsingPath acceptCallBack)
                      else
                        (if s = CONSTANT then Inr []
                         else if s = MESSAGE \<or> s = SESSION
                         then regenerateAndMemorize self parsingPath acceptCallBack
                         else regenerate self parsingPath acceptCallBack)) of
                  Inl e \<Rightarrow> (Raised e, w)
                | Inr newParsingPaths \<Rightarrow>
                    (case leaf_mutator env fuzz self_id of
                       None \<Rightarrow> (Legitimate newParsingPaths, w)
                     | Some mutator \<Rightarrow>
                         if mutator_mode env mutator = MUTATE
                         then (Fuzz_mutated newParsingPaths, w)
                         else (Legitimate newParsingPaths, w)))))"

text \<open>
  \<open>k\<close> calls of \<^verbatim>\<open>generate\<close> in a row that all return: the values and the state after
  them, or \<open>None\<close> when one of the calls raises.
\<close>

primrec generated_values ::
  "('f, 'm, 'w) leaf_fuzzing \<Rightarrow> 'm \<Rightarrow> nat \<Rightarrow> 'w \<Rightarrow> (bytes list \<times> 'w) option"
where
  "generated_values env mutator 0 w = Some ([], w)"
| "generated_values env mutator (Suc k) w =
     (case leaf_mutator_generate env mutator w of
        (Inl e, w') \<Rightarrow> None
      | (Inr generated_value, w') \<Rightarrow>
          (case generated_values env mutator k w' of
             None \<Rightarrow> None
           | Some (vs, w'') \<Rightarrow> Some (generated_value # vs, w'')))"

subsubsection \<open>An example mutator\<close>

text \<open>
  A mutator for examples: the state is the number of values left; it generates the byte
  of that number and raises \<^verbatim>\<open>MaxFuzzingException\<close> at 0.
\<close>

definition example_leaf_fuzzing :: "(FuzzingMode, FuzzingMode, nat) leaf_fuzzing" where
  "example_leaf_fuzzing =
     \<lparr>leaf_fuzz_get = (\<lambda>f variable. if variable = 0 then Some f else None),
      mutator_mode = (\<lambda>mutator. mutator),
      mutator_count = (\<lambda>mutator w. 10),
      leaf_mutator_generate =
        (\<lambda>mutator w. if w = 0 then (Inl MaxFuzzingException, 0) else (Inr [w], w - 1))\<rparr>"

subsection \<open>Parser/FlowParser.py\<close>

text \<open>
  \<^verbatim>\<open>MessageParser\<close> is not among the source files. Its method \<^verbatim>\<open>parseBitarray\<close>, called
  with \<^verbatim>\<open>must_consume_everything=False\<close> on a memory, the bits to parse and a symbol, is a
  parameter: a generator of parse results (one slice per field of the symbol), each with
  the memory as it stands when the result is yielded, of which the flow parser takes a
  duplicate. A flow is a list of pairs of a symbol and a parse result.
\<close>

type_synonym ('s, 'm) message_parser = "'m \<Rightarrow> bitarray \<Rightarrow> 's \<Rightarrow> (bitarray list \<times> 'm) generator"

type_synonym 's flow = "('s \<times> bitarray list) list"

text \<open>
  \<^verbatim>\<open>parse_result_len\<close>, lines 214-215.
\<close>

definition parse_result_len :: "bitarray list \<Rightarrow> nat" where
  "parse_result_len parse_result = sum_list (map length parse_result)"

text \<open>
  The loop over the parse results of one symbol, lines 213-238. \<open>recurse\<close> is the
  recursive call of \<^verbatim>\<open>_parseFlow_internal\<close> with the same symbols. An
  \<^verbatim>\<open>InvalidParsingPathException\<close> of the recursive generator is passed over (lines
  233-234); any other exception leaves the loop.
\<close>

fun parse_results_loop ::
  "(bitarray \<Rightarrow> 'm \<Rightarrow> 's flow generator) \<Rightarrow> bitarray \<Rightarrow> 's \<Rightarrow> (bitarray list \<times> 'm) list \<Rightarrow>
   's flow generator"
where
  "parse_results_loop recurse data symbol [] = ([], None)"
| "parse_results_loop recurse data symbol ((parse_result, mem) # rest) =
     (let remainings_bitarray = drop (parse_result_len parse_result) data
      in if length remainings_bitarray > 0 then
           (case recurse remainings_bitarray mem of
              (child_flow_parsings, ended) \<Rightarrow>
                (let yielded = map (\<lambda>child_flow_parsing. (symbol, parse_result) # child_flow_parsing)
                                 child_flow_parsings
                 in if ended = None \<or> ended = Some InvalidParsingPathException then
                      (case parse_results_loop recurse data symbol rest of
                         (later, e) \<Rightarrow> (yielded @ later, e))
                    else (yielded, ended)))
         else
           (case parse_results_loop recurse data symbol rest of
              (later, e) \<Rightarrow> ([(symbol, parse_result)] # later, e)))"

text \<open>
  The body of the loop over the symbols, lines 205-241: an
  \<^verbatim>\<open>InvalidParsingPathException\<close>, of the parser or from the loop over its results, is
  passed over.
\<close>

definition parse_symbol ::
  "('s, 'm) message_parser \<Rightarrow> (bitarray \<Rightarrow> 'm \<Rightarrow> 's flow generator) \<Rightarrow> 'm \<Rightarrow> bitarray \<Rightarrow> 's \<Rightarrow>
   's flow generator"
where
  "parse_symbol parseBitarray recurse mem data symbol =
     (case parseBitarray mem data symbol of
        (results, ended) \<Rightarrow>
          (case parse_results_loop recurse data symbol results of
             (yielded, Some e) \<Rightarrow>
               (yielded, if e = InvalidParsingPathException then None else Some e)
           | (yielded, None) \<Rightarrow>
               (yielded, if ended = Some InvalidParsingPathException then None else ended)))"

text \<open>
  The loop over the symbols, line 202.
\<close>

fun symbols_loop ::
  "('s, 'm) message_parser \<Rightarrow> (bitarray \<Rightarrow> 'm \<Rightarrow> 's flow generator) \<Rightarrow> 'm \<Rightarrow> bitarray \<Rightarrow> 's list \<Rightarrow>
   's flow generator"
where
  "symbols_loop parseBitarray recurse mem data [] = ([], None)"
| "symbols_loop parseBitarray recurse mem data (symbol # rest) =
     (case parse_symbol parseBitarray recurse mem data symbol of
        (yielded, Some e) \<Rightarrow> (yielded, Some e)
      | (yielded, None) \<Rightarrow>
          (case symbols_loop parseBitarray recurse mem data rest of
             (later, e) \<Rightarrow> (yielded @ later, e)))"

text \<open>
  \<^verbatim>\<open>_parseFlow_internal\<close>, lines 196-241. Nothing in the method bounds the recursion: a
  parse result that consumes no bit leads to a recursive call on the same bits. \<open>depth\<close>
  is the depth of recursion the interpreter still allows; at 0 the call raises
  \<^verbatim>\<open>RecursionError\<close>.
\<close>

primrec parseFlow_internal ::
  "('s, 'm) message_parser \<Rightarrow> 's list \<Rightarrow> nat \<Rightarrow> bitarray \<Rightarrow> 'm \<Rightarrow> 's flow generator"
where
  "parseFlow_internal parseBitarray symbols 0 data_to_parse_bitarray mem =
     ([], Some RecursionError)"
| "parseFlow_internal parseBitarray symbols (Suc depth) data_to_parse_bitarray mem =
     (if length data_to_parse_bitarray = 0 then ([], Some Exception)
      else symbols_loop parseBitarray (parseFlow_internal parseBitarray symbols depth) mem
             data_to_parse_bitarray symbols)"

text \<open>
  \<^verbatim>\<open>parseFlow\<close>, lines 177-194, on the data of the message: the first flow of the
  generator is returned. The conversion of the data to bits is \<^verbatim>\<open>frombytes\<close>.
\<close>

definition parseFlow ::
  "('s, 'm) message_parser \<Rightarrow> nat \<Rightarrow> 'm \<Rightarrow> bytes \<Rightarrow> 's list \<Rightarrow> exn + 's flow"
where
  "parseFlow parseBitarray depth mem message_data symbols =
     (if length symbols = 0 then Inl Exception
      else
        (case parseFlow_internal parseBitarray symbols depth (frombytes message_data) mem of
           (result # later, ended) \<Rightarrow> Inr result
         | ([], Some e) \<Rightarrow> Inl e
         | ([], None) \<Rightarrow> Inl InvalidParsingPathException))"

text \<open>
  The complete segmentations of some bits: a symbol of the list parses the bits, and
  either nothing remains after the slices of the parse result, or the remaining bits
  have a complete segmentation themselves, from the memory of that result.
\<close>

inductive segmentation ::
  "('s, 'm) message_parser \<Rightarrow> 's list \<Rightarrow> 'm \<Rightarrow> bitarray \<Rightarrow> 's flow \<Rightarrow> bool"
  for parseBitarray :: "('s, 'm) message_parser" and symbols :: "'s list"
where
  last_segment:
    "symbol \<in> set symbols \<Longrightarrow>
     (parse_result, mem') \<in> set (fst (parseBitarray mem data symbol)) \<Longrightarrow>
     drop (parse_result_len parse_result) data = [] \<Longrightarrow>
     segmentation parseBitarray symbols mem data [(symbol, parse_result)]"
| next_segment:
    "symbol \<in> set symbols \<Longrightarrow>
     (parse_result, mem') \<in> set (fst (parseBitarray mem data symbol)) \<Longrightarrow>
     drop (parse_result_len parse_result) data \<noteq> [] \<Longrightarrow>
     segmentation parseBitarray symbols mem' (drop (parse_result_len parse_result) data) flow \<Longrightarrow>
     segmentation parseBitarray symbols mem data ((symbol, parse_result) # flow)"

text \<open>
  The bit-lengths of all the slices of a flow, added.
\<close>

definition flow_len :: "'s flow \<Rightarrow> nat" where
  "flow_len flow = sum_list (map (\<lambda>segment. parse_result_len (snd segment)) flow)"

text \<open>
  Three properties of a parser. The slices of a parse result are taken from the bits
  parsed: together they are no longer than these bits.
\<close>

definition within_input :: "('s, 'm) message_parser \<Rightarrow> bool" where
  "within_input parseBitarray =
     (\<forall>mem data symbol. list_all (\<lambda>r. parse_result_len (fst r) \<le> length data)
        (fst (parseBitarray mem data symbol)))"

text \<open>
  Every parse result consumes at least one bit.
\<close>

definition consumes_bits :: "('s, 'm) message_parser \<Rightarrow> bool" where
  "consumes_bits parseBitarray =
     (\<forall>mem data symbol. list_all (\<lambda>r. 0 < parse_result_len (fst r))
        (fst (parseBitarray mem data symbol)))"

text \<open>
  The parser raises nothing but \<^verbatim>\<open>InvalidParsingPathException\<close>.
\<close>

definition ends_as_parser :: "('s, 'm) message_parser \<Rightarrow> bool" where
  "ends_as_parser parseBitarray =
     (\<forall>mem data symbol.
        snd (parseBitarray mem data symbol) = None \<or>
        snd (parseBitarray mem data symbol) = Some InvalidParsingPathException)"

subsubsection \<open>Flows by their first segment\<close>

text \<open>
  The flows that start with one parse result of a symbol.
\<close>

definition segment_flows ::
  "(bitarray \<Rightarrow> 'm \<Rightarrow> 's flow generator) \<Rightarrow> bitarray \<Rightarrow> 's \<Rightarrow> bitarray list \<times> 'm \<Rightarrow> 's flow list"
where
  "segment_flows recurse data symbol rm =
     (let remainings_bitarray = drop (parse_result_len (fst rm)) data
      in if remainings_bitarray = [] then [[(symbol, fst rm)]]
         else map (\<lambda>child. (symbol, fst rm) # child) (fst (recurse remainings_bitarray (snd rm))))"

text \<open>
  The recursive call for a parse result, if there is one, ends without an exception.
\<close>

definition recursion_ends ::
  "(bitarray \<Rightarrow> 'm \<Rightarrow> 's flow generator) \<Rightarrow> bitarray \<Rightarrow> bitarray list \<times> 'm \<Rightarrow> bool"
where
  "recursion_ends recurse data rm =
     (drop (parse_result_len (fst rm)) data = [] \<or>
      snd (recurse (drop (parse_result_len (fst rm)) data) (snd rm)) = None)"

subsubsection \<open>An example parser\<close>

text \<open>
  A parser for examples: a symbol is the constant bytes of its only field, as
  \<^verbatim>\<open>Symbol(fields=[Field(String("aabb"))])\<close>.
\<close>

definition constant_parser :: "(bytes, unit) message_parser" where
  "constant_parser mem data symbol =
     (if symbol \<noteq> [] \<and> take (length (frombytes symbol)) data = frombytes symbol
      then [([frombytes symbol], mem)] else [],
      None)"

section \<open>Properties\<close>

subsection \<open>Types/BitArray.py\<close>

text \<open>
  C3, as stated, fails: a \<^verbatim>\<open>BitArray\<close> with the fixed value \<^verbatim>\<open>11110101\<close> (the one of the
  docstring) accepts the different eight-bit value \<^verbatim>\<open>00000000\<close>, because a value that
  does not match falls through to the size check. This is so without bounds, as
  \<^verbatim>\<open>BitArray('11110101')\<close> passes them on, and with bounds of exactly eight bits.
\<close>

theorem C3_canParse_fixed_value_counterexample:
  "BitArray_canParse
     \<lparr>ba_value = Some [True, True, True, True, False, True, False, True],
      ba_size = (None, None)\<rparr>
     [False, False, False, False, False, False, False, False]
   \<and> BitArray_canParse
     \<lparr>ba_value = Some [True, True, True, True, False, True, False, True],
      ba_size = (Some 8, Some 8)\<rparr>
     [False, False, False, False, False, False, False, False]
   \<and> [False, False, False, False, False, False, False, False]
      \<noteq> [True, True, True, True, False, True, False, True]"
  by (simp add: BitArray_canParse_def)

text \<open>
  C3, amended: \<^verbatim>\<open>canParse(data)\<close> returns True exactly when \<open>data\<close> is not empty and
  either equals the fixed value (when one is set) or has a bit-length within the
  declared bounds.
\<close>

theorem C3_canParse_characterisation:
  "BitArray_canParse self data \<longleftrightarrow>
     data \<noteq> [] \<and> (ba_value self = Some data \<or> within_size (ba_size self) data)"
  by (cases "ba_value self"; cases "fst (ba_size self)"; cases "snd (ba_size self)")
     (auto simp: BitArray_canParse_def within_size_def Let_def)

theorem C3_canParse_characterisation_witness:
  "BitArray_canParse \<lparr>ba_value = None, ba_size = (Some 8, Some 8)\<rparr>
     [False, True, False, True, False, True, False, True]
   \<and> \<not> BitArray_canParse \<lparr>ba_value = None, ba_size = (Some 8, Some 8)\<rparr>
     [False, True, False, True, False, True, False, True, True]
   \<and> \<not> BitArray_canParse \<lparr>ba_value = None, ba_size = (Some 0, Some 8)\<rparr> []"
  using C3_canParse_characterisation
          [of "\<lparr>ba_value = None, ba_size = (Some 8, Some 8)\<rparr>"
              "[False, True, False, True, False, True, False, True]"]
        C3_canParse_characterisation
          [of "\<lparr>ba_value = None, ba_size = (Some 8, Some 8)\<rparr>"
              "[False, True, False, True, False, True, False, True, True]"]
        C3_canParse_characterisation
          [of "\<lparr>ba_value = None, ba_size = (Some 0, Some 8)\<rparr>" "[]"]
  by (simp add: within_size_def)

subsection \<open>Types/Integer.py\<close>

subsubsection \<open>Round trip\<close>

text \<open>The byte strings \<^verbatim>\<open>struct.pack\<close> builds are read back by \<^verbatim>\<open>struct.unpack\<close>.\<close>

lemma length_le_bytes: "length (le_bytes n x) = n"
  by (induction n arbitrary: x) simp_all

lemma from_le_bytes_le_bytes: "x < 256 ^ n \<Longrightarrow> from_le_bytes (le_bytes n x) = x"
proof (induction n arbitrary: x)
  case 0
  then show ?case by simp
next
  case (Suc n)
  from Suc.prems have "x div 256 < 256 ^ n"
    by (simp add: less_mult_imp_div_less mult.commute)
  with Suc.IH have "from_le_bytes (le_bytes n (x div 256)) = x div 256" .
  then show ?case by simp
qed

lemma byte_order_involution: "byte_order e (byte_order e bs) = bs"
  by (simp add: byte_order_def)

lemma length_byte_order: "length (byte_order e bs) = length bs"
  by (simp add: byte_order_def)

lemma unsigned_roundtrip:
  fixes v :: int
  assumes "0 \<le> v" "v < 2 ^ (8 * n)"
  shows "int (from_le_bytes (le_bytes n (nat (v mod 2 ^ (8 * n))))) = v"
proof -
  have "nat v < 256 ^ n"
  proof -
    have "(256::nat) ^ n = 2 ^ (8 * n)" by (simp add: power_mult)
    moreover have "nat v < 2 ^ (8 * n)" using assms by (simp add: nat_less_iff)
    ultimately show ?thesis by simp
  qed
  then have "from_le_bytes (le_bytes n (nat v)) = nat v" by (rule from_le_bytes_le_bytes)
  with assms show ?thesis by simp
qed

lemma signed_roundtrip:
  fixes v :: int
  assumes "0 < n" "- (2 ^ (8 * n - 1)) \<le> v" "v < 2 ^ (8 * n - 1)"
  shows "(let u = int (from_le_bytes (le_bytes n (nat (v mod 2 ^ (8 * n)))))
          in if u \<ge> 2 ^ (8 * n - 1) then u - 2 ^ (8 * n) else u) = v"
proof -
  have pw: "(2::int) ^ (8 * n) = 2 * 2 ^ (8 * n - 1)"
  proof -
    from assms(1) have "8 * n = Suc (8 * n - 1)" by simp
    then show ?thesis by (metis power_Suc)
  qed
  have m0: "0 \<le> v mod 2 ^ (8 * n)" by simp
  have m1: "v mod 2 ^ (8 * n) < 2 ^ (8 * n)" by simp
  have u: "int (from_le_bytes (le_bytes n (nat (v mod 2 ^ (8 * n))))) = v mod 2 ^ (8 * n)"
    using unsigned_roundtrip [OF m0 m1] by simp
  show ?thesis
  proof (cases "0 \<le> v")
    case True
    with assms pw have "v mod 2 ^ (8 * n) = v" by simp
    with u assms show ?thesis by simp
  next
    case False
    with assms pw have "v mod 2 ^ (8 * n) = v + 2 ^ (8 * n)"
      by (intro mod_pos_pos_trivial [THEN trans [OF mod_add_self2 [symmetric]]]) simp_all
    with u assms pw False show ?thesis by simp
  qed
qed

lemma struct_pack_unpack:
  assumes code: "struct_code c = Some (n, signed)" and n: "0 < n"
      and range: "if signed then - (2 ^ (8 * n - 1)) \<le> v \<and> v < 2 ^ (8 * n - 1)
                  else 0 \<le> v \<and> v < 2 ^ (8 * n)"
  shows "\<exists>raw. struct_pack [e, c] v = Inr raw \<and> length raw = n \<and>
           struct_unpack [e, c] raw = Inr v"
proof -
  let ?raw = "byte_order e (le_bytes n (nat (v mod 2 ^ (8 * n))))"
  have pack: "struct_pack [e, c] v = Inr ?raw"
    using code range by (simp add: struct_pack_def)
  have len: "length ?raw = n"
    by (simp add: length_byte_order length_le_bytes)
  have unpack: "struct_unpack [e, c] ?raw = Inr v"
  proof (cases signed)
    case True
    with range have "- (2 ^ (8 * n - 1)) \<le> v" "v < 2 ^ (8 * n - 1)" by simp_all
    from signed_roundtrip [OF n this] True code len show ?thesis
      by (simp add: struct_unpack_def byte_order_involution Let_def)
  next
    case False
    with range have "0 \<le> v" "v < 2 ^ (8 * n)" by simp_all
    from unsigned_roundtrip [OF this] False code len show ?thesis
      by (simp add: struct_unpack_def byte_order_involution Let_def)
  qed
  from pack len unpack show ?thesis by blast
qed

lemma encode_single_word:
  assumes fmt: "computeFormat unitSize endianness sign = Inr f"
      and len: "length raw * 8 = unit_value unitSize"
      and unpack: "struct_unpack f raw = Inr v"
  shows "Integer_encode raw unitSize endianness sign = Inr v"
proof -
  from fmt have pos: "0 < unit_value unitSize"
    by (cases unitSize) (simp_all add: computeFormat_def)
  from len pos have words: "length raw * 8 div unit_value unitSize = 1"
    and rest: "length raw * 8 mod unit_value unitSize = 0"
    by simp_all
  from len have bytes: "unit_value unitSize div 8 = length raw" by simp
  show ?thesis
    using fmt unpack
    by (cases endianness)
       (simp_all add: Integer_encode_def Let_def words rest py_range_def bytes)
qed

text \<open>
  C9: for the unit sizes of integers (8, 16, 32 and 64 bits, the ones \<^verbatim>\<open>computeFormat\<close>
  has a format for), either sign and either endianness, every integer \<open>v\<close> within the
  storage range is decoded to a byte string of the length of the unit, and encoding
  that byte string gives \<open>v\<close> back.
\<close>

theorem C9_Integer_roundtrip:
  assumes unit: "unitSize \<in> {SIZE_8, SIZE_16, SIZE_32, SIZE_64}"
      and lo: "getMinStorageValue unitSize sign \<le> v"
      and hi: "v \<le> getMaxStorageValue unitSize sign"
  shows "\<exists>raw. Integer_decode v unitSize endianness sign = Inr raw \<and>
           length raw * 8 = unit_value unitSize \<and>
           Integer_encode raw unitSize endianness sign = Inr v"
proof -
  obtain e c where fmt: "computeFormat unitSize endianness sign = Inr [e, c]"
    using unit by (auto simp: computeFormat_def Let_def)
  obtain n where code: "struct_code c = Some (n, sign = SIGNED)"
    and n: "0 < n" and width: "unit_value unitSize = 8 * n"
    using unit fmt
    by (cases sign) (auto simp: computeFormat_def Let_def struct_code_def upper_char_def)
  have range: "if sign = SIGNED then - (2 ^ (8 * n - 1)) \<le> v \<and> v < 2 ^ (8 * n - 1)
               else 0 \<le> v \<and> v < 2 ^ (8 * n)"
  proof -
    from n have "8 * n = Suc (8 * n - 1)" by simp
    then have "(2::int) ^ (8 * n) = 2 * 2 ^ (8 * n - 1)" by (metis power_Suc)
    with lo hi width show ?thesis
      by (cases sign) (simp_all add: getMinStorageValue_def getMaxStorageValue_def)
  qed
  from struct_pack_unpack [OF code n range, of e]
  obtain raw where pack: "struct_pack [e, c] v = Inr raw" and len: "length raw = n"
    and unpack: "struct_unpack [e, c] raw = Inr v" by blast
  from fmt pack have "Integer_decode v unitSize endianness sign = Inr raw"
    by (simp add: Integer_decode_def)
  moreover from len width have "length raw * 8 = unit_value unitSize" by simp
  moreover from this fmt unpack have "Integer_encode raw unitSize endianness sign = Inr v"
    by (intro encode_single_word)
  ultimately show ?thesis by blast
qed

text \<open>
  For the other unit sizes \<^verbatim>\<open>computeFormat\<close> raises: "Only 8, 16, 32 and 64 bits unitsize
  are available for integers".
\<close>

lemma decode_other_unit_sizes:
  "unitSize \<notin> {SIZE_8, SIZE_16, SIZE_32, SIZE_64} \<Longrightarrow>
   Integer_decode v unitSize endianness sign = Inl ValueError"
  by (cases unitSize) (simp_all add: Integer_decode_def computeFormat_def)

text \<open>The examples of the docstrings of \<^verbatim>\<open>decode\<close> and \<^verbatim>\<open>encode\<close>.\<close>

lemma decode_doctest_1200:
  "Integer_decode 1200 SIZE_16 BIG SIGNED = Inr [4, 176]"
  by code_simp

lemma encode_doctest_1200:
  "Integer_encode [4, 176] SIZE_16 BIG SIGNED = Inr 1200"
  by code_simp

lemma encode_doctest_padding:
  "Integer_encode [0xcc, 0xac, 0x9c] SIZE_16 BIG SIGNED = Inr 10210476"
  "Integer_encode [0xcc, 0xac, 0x9c] SIZE_32 BIG SIGNED = Inr 13413532"
  "Integer_encode [0xcc, 0xac, 0x9c] SIZE_32 LITTLE SIGNED = Inr 10267852"
  by code_simp+

theorem C9_Integer_roundtrip_witness:
  "(\<exists>raw. Integer_decode 1200 SIZE_16 BIG SIGNED = Inr raw \<and>
      length raw * 8 = unit_value SIZE_16 \<and>
      Integer_encode raw SIZE_16 BIG SIGNED = Inr 1200) \<and>
   Integer_decode 1200 SIZE_16 BIG SIGNED = Inr [4, 176]"
  using C9_Integer_roundtrip [of SIZE_16 SIGNED 1200 BIG] decode_doctest_1200
  by (simp add: getMinStorageValue_def getMaxStorageValue_def)

subsection \<open>Fuzzing/AlternativeMutator.py\<close>

subsubsection \<open>The recursion limit\<close>

lemma generate_maxDepth:
  "maxDepth (snd (AlternativeMutator_generate sg gi m)) = maxDepth m"
  by (simp add: AlternativeMutator_generate_def Let_def split: prod.splits option.splits)

lemma generate_increments:
  "fst (sg (domainMutator m)) = None \<Longrightarrow>
   currentDepth (snd (AlternativeMutator_generate sg gi m)) = currentDepth m + 1"
  by (auto simp: AlternativeMutator_generate_def Let_def split: prod.splits option.splits)

lemma generate_monotone:
  "currentDepth m \<le> currentDepth (snd (AlternativeMutator_generate sg gi m))"
  by (simp add: AlternativeMutator_generate_def Let_def split: prod.splits option.splits)

lemma generate_raises_at_limit:
  "fst (sg (domainMutator m)) = None \<Longrightarrow> maxDepth m \<le> currentDepth m + 1 \<Longrightarrow>
   fst (AlternativeMutator_generate sg gi m) = Inl RecursionException"
  by (auto simp: AlternativeMutator_generate_def Let_def split: prod.splits option.splits)

lemma generate_success:
  assumes "AlternativeMutator_generate sg gi m = (Inr pos, m')"
  shows "currentDepth m' = currentDepth m + 1 \<and> currentDepth m' < maxDepth m' \<and>
         maxDepth m' = maxDepth m"
  using assms
  by (auto simp: AlternativeMutator_generate_def Let_def
           split: prod.splits option.splits if_splits)

lemma generate_calls_successes:
  "int (successes (fst (generate_calls sg gi k m))) \<le> max 0 (maxDepth m - 1 - currentDepth m)"
proof (induction k arbitrary: m)
  case 0
  then show ?case by (simp add: successes_def)
next
  case (Suc k)
  obtain r m' where step: "AlternativeMutator_generate sg gi m = (r, m')"
    by (cases "AlternativeMutator_generate sg gi m")
  obtain rs m'' where rest: "generate_calls sg gi k m' = (rs, m'')"
    by (cases "generate_calls sg gi k m'")
  from Suc.IH [of m'] rest
  have IH: "int (successes rs) \<le> max 0 (maxDepth m' - 1 - currentDepth m')" by simp
  have md: "maxDepth m' = maxDepth m" using generate_maxDepth [of sg gi m] step by simp
  show ?case
  proof (cases r)
    case (Inl e)
    have "currentDepth m \<le> currentDepth m'"
      using generate_monotone [of m sg gi] step by simp
    with IH md Inl step rest show ?thesis by (simp add: successes_def)
  next
    case (Inr pos)
    with step have "AlternativeMutator_generate sg gi m = (Inr pos, m')" by simp
    from generate_success [OF this]
    have "currentDepth m' = currentDepth m + 1" "currentDepth m' < maxDepth m'" by simp_all
    with IH md Inr step rest show ?thesis by (simp add: successes_def)
  qed
qed

text \<open>
  C6, amended: a call of \<^verbatim>\<open>generate\<close> that gets past the parent's \<^verbatim>\<open>generate\<close>
  increments the depth counter; it raises \<^verbatim>\<open>RecursionException\<close> as soon as the
  incremented counter reaches the limit \<open>D\<close> (\<^verbatim>\<open>>=\<close>, not only once it exceeds \<open>D\<close>); a
  call that returns leaves the counter below \<open>D\<close>; so from a counter of 0 no sequence of
  calls holds more than \<open>D - 1\<close> calls that return.
\<close>

theorem C6_depth_limit:
  "(fst (sg (domainMutator m)) = None \<longrightarrow>
      currentDepth (snd (AlternativeMutator_generate sg gi m)) = currentDepth m + 1) \<and>
   (fst (sg (domainMutator m)) = None \<and> maxDepth m \<le> currentDepth m + 1 \<longrightarrow>
      fst (AlternativeMutator_generate sg gi m) = Inl RecursionException) \<and>
   (\<forall>pos m'. AlternativeMutator_generate sg gi m = (Inr pos, m') \<longrightarrow>
      currentDepth m' = currentDepth m + 1 \<and> currentDepth m' < maxDepth m) \<and>
   (currentDepth m = 0 \<longrightarrow>
      int (successes (fst (generate_calls sg gi k m))) \<le> max 0 (maxDepth m - 1))"
proof (intro conjI impI allI)
  assume "fst (sg (domainMutator m)) = None"
  then show "currentDepth (snd (AlternativeMutator_generate sg gi m)) = currentDepth m + 1"
    by (rule generate_increments)
next
  assume "fst (sg (domainMutator m)) = None \<and> maxDepth m \<le> currentDepth m + 1"
  then show "fst (AlternativeMutator_generate sg gi m) = Inl RecursionException"
    by (simp add: generate_raises_at_limit)
next
  fix pos m'
  assume "AlternativeMutator_generate sg gi m = (Inr pos, m')"
  from generate_success [OF this]
  show "currentDepth m' = currentDepth m + 1" "currentDepth m' < maxDepth m" by simp_all
next
  assume "currentDepth m = 0"
  with generate_calls_successes [of sg gi k m]
  show "int (successes (fst (generate_calls sg gi k m))) \<le> max 0 (maxDepth m - 1)" by simp
qed

text \<open>
  C6, as stated, fails: with the default limit of 20, a parent that never raises and a
  position mutator that always answers 0, the twentieth call raises although the
  counter then equals the limit and does not exceed it.
\<close>

theorem C6_raises_at_limit_counterexample:
  "fst (generate_calls (\<lambda>d. (None, d)) (\<lambda>p. (Inr 0, p)) 20
          (AlternativeMutator_init DEFAULT_MAX_DEPTH () ())) ! 19 = Inl RecursionException \<and>
   currentDepth (snd (generate_calls (\<lambda>d. (None, d)) (\<lambda>p. (Inr 0, p)) 20
          (AlternativeMutator_init DEFAULT_MAX_DEPTH () ()))) = DEFAULT_MAX_DEPTH"
  by code_simp

theorem C6_depth_limit_witness:
  "currentDepth (snd (AlternativeMutator_generate (\<lambda>d. (None, d)) (\<lambda>p. (Inr 0, p))
          (AlternativeMutator_init DEFAULT_MAX_DEPTH () ()))) = 1 \<and>
   successes (fst (generate_calls (\<lambda>d. (None, d)) (\<lambda>p. (Inr 0, p)) 25
          (AlternativeMutator_init DEFAULT_MAX_DEPTH () ()))) = 19 \<and>
   int (successes (fst (generate_calls (\<lambda>d. (None, d)) (\<lambda>p. (Inr 0, p)) 25
          (AlternativeMutator_init DEFAULT_MAX_DEPTH () ())))) \<le> max 0 (DEFAULT_MAX_DEPTH - 1)"
proof -
  let ?m = "AlternativeMutator_init DEFAULT_MAX_DEPTH () () :: (unit, unit) AlternativeMutator"
  have run: "successes (fst (generate_calls (\<lambda>d. (None, d)) (\<lambda>p. (Inr 0, p)) 25 ?m)) = 19"
    by code_simp
  have fresh: "currentDepth ?m = 0" "maxDepth ?m = DEFAULT_MAX_DEPTH" "domainMutator ?m = ()"
    by (simp_all add: AlternativeMutator_init_def)
  from C6_depth_limit [of "\<lambda>d. (None, d)" ?m "\<lambda>p. (Inr 0, p)" 25] fresh run
  show ?thesis by simp
qed

subsection \<open>Paths and memory\<close>

text \<open>What is assigned to a variable is what is read back.\<close>

lemma getData_addResult: "getData (addResult p v s) v = Some s"
  by (simp add: getData_def addResult_def assignData_def)

lemma getData_assignData: "getData (assignData p s v) v = Some s"
  by (simp add: getData_def assignData_def)

lemma getData_memorize: "getData (memorize p v s) w = getData p w"
  by (simp add: getData_def memorize_def)

subsection \<open>Data leaves\<close>

subsubsection \<open>The method chosen by parse\<close>

text \<open>
  C1, amended: a leaf of scope MESSAGE is handed to \<^verbatim>\<open>learn\<close> whether or not it is
  already defined, as an undefined SESSION leaf is: its value is learnt again. Only a
  defined leaf of scope CONSTANT or SESSION goes through \<^verbatim>\<open>valueCMP\<close>.
\<close>

theorem C1_defined_MESSAGE_learns:
  "AbstractVariableLeaf_parse self (Some MESSAGE) path a c
     = except_ParsingException (learn self path a c) \<and>
   (isDefined self path \<longrightarrow>
      AbstractVariableLeaf_parse self (Some CONSTANT) path a c
        = except_ParsingException (valueCMP self path a c) \<and>
      AbstractVariableLeaf_parse self (Some SESSION) path a c
        = except_ParsingException (valueCMP self path a c))"
  by (simp add: AbstractVariableLeaf_parse_def)

text \<open>
  C1, as stated, fails: a MESSAGE leaf of one bit whose memorized value is \<^verbatim>\<open>1\<close> parses
  the input \<^verbatim>\<open>01\<close>; \<^verbatim>\<open>valueCMP\<close> would refuse it, but \<^verbatim>\<open>parse\<close> yields a path, on which
  the leaf now holds \<^verbatim>\<open>0\<close> and the memory too.
\<close>

theorem C1_defined_MESSAGE_counterexample:
  "Data_isDefined
     \<lparr>var_id = 0, scope = Some MESSAGE,
      dataType = BitArray_type \<lparr>ba_value = None, ba_size = (Some 1, Some 1)\<rparr> (1, Some 1)\<rparr>
     \<lparr>dataAssignedToVariable = [0 \<mapsto> [False, True]], memory = [0 \<mapsto> [True]]\<rparr> \<and>
   Data_valueCMP
     \<lparr>var_id = 0, scope = Some MESSAGE,
      dataType = BitArray_type \<lparr>ba_value = None, ba_size = (Some 1, Some 1)\<rparr> (1, Some 1)\<rparr>
     \<lparr>dataAssignedToVariable = [0 \<mapsto> [False, True]], memory = [0 \<mapsto> [True]]\<rparr> True False
     = Inr [] \<and>
   map (\<lambda>q. (getData q 0, memory q 0))
     (case Data_parse
        \<lparr>var_id = 0, scope = Some MESSAGE,
         dataType = BitArray_type \<lparr>ba_value = None, ba_size = (Some 1, Some 1)\<rparr> (1, Some 1)\<rparr>
        \<lparr>dataAssignedToVariable = [0 \<mapsto> [False, True]], memory = [0 \<mapsto> [True]]\<rparr> True False
      of Inl e \<Rightarrow> [] | Inr paths \<Rightarrow> paths)
     = [(Some [False], Some [False])]"
  by (simp add: Data_parse_def AbstractVariableLeaf_parse_def Data_methods_def
        Data_isDefined_def Data_learn_def Data_valueCMP_def accepted_lengths_def
        candidate_lengths_def BitArray_type_def BitArray_canParse_def getData_def
        addResult_def assignData_def duplicate_def memorize_def except_ParsingException_def)

theorem C1_defined_MESSAGE_learns_witness:
  "isDefined
     (Data_methods \<lparr>var_id = 0, scope = Some MESSAGE,
        dataType = BitArray_type \<lparr>ba_value = None, ba_size = (Some 1, Some 1)\<rparr> (1, Some 1)\<rparr>)
     \<lparr>dataAssignedToVariable = [0 \<mapsto> [False, True]], memory = [0 \<mapsto> [True]]\<rparr> \<and>
   AbstractVariableLeaf_parse
     (Data_methods \<lparr>var_id = 0, scope = Some MESSAGE,
        dataType = BitArray_type \<lparr>ba_value = None, ba_size = (Some 1, Some 1)\<rparr> (1, Some 1)\<rparr>)
     (Some SESSION)
     \<lparr>dataAssignedToVariable = [0 \<mapsto> [False, True]], memory = [0 \<mapsto> [True]]\<rparr> True False
     = Inr []"
  using C1_defined_MESSAGE_learns
    [of "Data_methods \<lparr>var_id = 0, scope = Some MESSAGE,
           dataType = BitArray_type \<lparr>ba_value = None, ba_size = (Some 1, Some 1)\<rparr> (1, Some 1)\<rparr>"
        "\<lparr>dataAssignedToVariable = [0 \<mapsto> [False, True]], memory = [0 \<mapsto> [True]]\<rparr>"
        True False]
  by (simp add: Data_methods_def Data_isDefined_def Data_valueCMP_def getData_def
        except_ParsingException_def)

subsection \<open>Parser/FieldParser.py\<close>

subsubsection \<open>Order of the candidate lengths\<close>

lemma candidate_lengths_bound:
  "n \<in> set (candidate_lengths t remaining carnivorous) \<Longrightarrow> n \<le> remaining"
  by (auto simp: candidate_lengths_def Let_def split: option.splits if_splits)

lemma candidate_lengths_ascending:
  "sorted_wrt (<) (candidate_lengths t remaining carnivorous)"
  unfolding candidate_lengths_def Let_def by (rule sorted_wrt_upt)

lemma accepted_lengths_ascending:
  "sorted_wrt (<) (accepted_lengths t content carnivorous)"
  unfolding accepted_lengths_def
  by (rule sorted_wrt_filter) (rule candidate_lengths_ascending)

lemma accepted_lengths_set:
  "set (accepted_lengths t content carnivorous) =
     {n. fst (type_size t) \<le> n \<and>
         n \<le> (if carnivorous then length content
              else case snd (type_size t) of None \<Rightarrow> length content
                   | Some m \<Rightarrow> min m (length content)) \<and>
         type_canParse t (take n content)}"
  by (auto simp: accepted_lengths_def candidate_lengths_def Let_def)

lemma sorted_wrt_less_hd:
  fixes ns :: "nat list"
  shows "sorted_wrt (<) ns \<Longrightarrow> n \<in> set ns \<Longrightarrow> hd ns \<le> n"
  by (cases ns) auto

lemma accepted_lengths_bound:
  "n \<in> set (accepted_lengths t content carnivorous) \<Longrightarrow> n \<le> length content"
  by (auto simp: accepted_lengths_def dest: candidate_lengths_bound)

lemma domainCMP_slice_lengths:
  assumes "Data_domainCMP self path a carnivorous = Inr paths"
      and "getData path (var_id self) = Some content"
  shows "map (\<lambda>q. slice_length q (var_id self)) paths =
           accepted_lengths (dataType self) content carnivorous"
proof -
  from assms have paths:
    "paths = map (\<lambda>n. addResult (duplicate path) (var_id self) (take n content))
               (accepted_lengths (dataType self) content carnivorous)"
    by (simp add: Data_domainCMP_def)
  have "map (\<lambda>q. slice_length q (var_id self)) paths =
        map (\<lambda>n. min (length content) n) (accepted_lengths (dataType self) content carnivorous)"
    by (simp add: paths slice_length_def comp_def getData_addResult)
  also have "\<dots> = map (\<lambda>n. n) (accepted_lengths (dataType self) content carnivorous)"
    by (rule map_cong) (auto dest: accepted_lengths_bound)
  finally show ?thesis by simp
qed

text \<open>
  C4: for a \<^verbatim>\<open>Data\<close> leaf of scope NONE, which \<^verbatim>\<open>parse\<close> hands to \<^verbatim>\<open>domainCMP\<close>, the paths
  \<^verbatim>\<open>FieldParser.parse\<close> yields carry the accepted candidate lengths in ascending order,
  each path holding the slice of its length: the path that consumes the shortest
  accepted slice comes first, before the paths that consume longer slices of the same
  input.
\<close>

theorem C4_shortest_first:
  assumes none: "scope d = Some NONE"
      and dom: "domain field = Some d"
      and content: "getData path (var_id d) = Some content"
  shows "\<exists>paths. FieldParser_parse var_id VariableParser_parse_leaf field lastField path
                   = (paths, None) \<and>
           map (\<lambda>q. slice_length q (var_id d)) paths
             = accepted_lengths (dataType d) content lastField \<and>
           map (\<lambda>q. getData q (var_id d)) paths
             = map (\<lambda>n. Some (take n content)) (accepted_lengths (dataType d) content lastField) \<and>
           sorted_wrt (<) (map (\<lambda>q. slice_length q (var_id d)) paths) \<and>
           (\<forall>q \<in> set paths. slice_length (hd paths) (var_id d) \<le> slice_length q (var_id d))"
proof -
  let ?p = "assignData path content (var_id d)"
  let ?len = "\<lambda>q. slice_length q (var_id d)"
  have c: "getData ?p (var_id d) = Some content" by (rule getData_assignData)
  obtain paths where cmp: "Data_domainCMP d ?p True lastField = Inr paths"
    using c by (simp add: Data_domainCMP_def)
  from none cmp have "Data_parse d ?p True lastField = Inr paths"
    by (simp add: Data_parse_def AbstractVariableLeaf_parse_def Data_methods_def
          except_ParsingException_def)
  with dom content
  have run: "FieldParser_parse var_id VariableParser_parse_leaf field lastField path = (paths, None)"
    by (simp add: FieldParser_parse_def VariableParser_parse_leaf_def)
  from domainCMP_slice_lengths [OF cmp c]
  have lens: "map ?len paths = accepted_lengths (dataType d) content lastField" .
  from cmp c have slices: "map (\<lambda>q. getData q (var_id d)) paths
      = map (\<lambda>n. Some (take n content)) (accepted_lengths (dataType d) content lastField)"
    by (auto simp: Data_domainCMP_def comp_def getData_addResult)
  from lens accepted_lengths_ascending [of "dataType d" content lastField]
  have asc: "sorted_wrt (<) (map ?len paths)" by simp
  have first: "\<forall>q \<in> set paths. ?len (hd paths) \<le> ?len q"
  proof
    fix q assume q: "q \<in> set paths"
    then have "paths \<noteq> []" by auto
    then have "hd (map ?len paths) = ?len (hd paths)" by (simp add: hd_map)
    moreover from q have "?len q \<in> set (map ?len paths)" by simp
    ultimately show "?len (hd paths) \<le> ?len q"
      using sorted_wrt_less_hd [OF asc] by metis
  qed
  from run lens slices asc first show ?thesis by blast
qed

text \<open>
  On the input of the first example of the docstring of \<^verbatim>\<open>FieldParser\<close> (lines 56-71),
  \<^verbatim>\<open>String(nbChars=(1,10))\<close> on \<^verbatim>\<open>toto\<close>, the enumeration described by the specification
  gives \<^verbatim>\<open>t\<close>, \<^verbatim>\<open>to\<close>, \<^verbatim>\<open>tot\<close> and \<^verbatim>\<open>toto\<close>. The docstring prints the same four
  results from the longest to the shortest: \<^verbatim>\<open>Data.domainCMP\<close>, which decides the order,
  is not among the source files, and the order here is the one of the specification.
\<close>

lemma FieldParser_docstring_input:
  "map (\<lambda>q. getData q 0)
     (fst (FieldParser_parse var_id VariableParser_parse_leaf
        \<lparr>domain = Some \<lparr>var_id = 0, scope = Some NONE, dataType = String_nbChars 1 10\<rparr>\<rparr> False
        \<lparr>dataAssignedToVariable = [0 \<mapsto> frombytes [116, 111, 116, 111]], memory = Map.empty\<rparr>))
   = [Some (frombytes [116]), Some (frombytes [116, 111]),
      Some (frombytes [116, 111, 116]), Some (frombytes [116, 111, 116, 111])]"
  by code_simp

theorem C4_shortest_first_witness:
  "\<exists>paths. FieldParser_parse var_id VariableParser_parse_leaf
        \<lparr>domain = Some \<lparr>var_id = 0, scope = Some NONE,
            dataType = BitArray_type \<lparr>ba_value = None, ba_size = (Some 1, Some 3)\<rparr> (1, Some 3)\<rparr>\<rparr>
        False
        \<lparr>dataAssignedToVariable = [0 \<mapsto> [True, False, True, True]], memory = Map.empty\<rparr>
      = (paths, None) \<and>
     map (\<lambda>q. slice_length q 0) paths = [1, 2, 3] \<and>
     map (\<lambda>q. getData q 0) paths
       = [Some [True], Some [True, False], Some [True, False, True]] \<and>
     sorted_wrt (<) (map (\<lambda>q. slice_length q 0) paths)"
proof -
  have acc: "accepted_lengths (BitArray_type \<lparr>ba_value = None, ba_size = (Some 1, Some 3)\<rparr> (1, Some 3))
          [True, False, True, True] False = [1, 2, 3]"
    by code_simp
  from C4_shortest_first
    [of "\<lparr>var_id = 0, scope = Some NONE,
            dataType = BitArray_type \<lparr>ba_value = None, ba_size = (Some 1, Some 3)\<rparr> (1, Some 3)\<rparr>"
        "\<lparr>domain = Some \<lparr>var_id = 0, scope = Some NONE,
            dataType = BitArray_type \<lparr>ba_value = None, ba_size = (Some 1, Some 3)\<rparr> (1, Some 3)\<rparr>\<rparr>"
        "\<lparr>dataAssignedToVariable = [0 \<mapsto> [True, False, True, True]], memory = Map.empty\<rparr>"
        "[True, False, True, True]" False]
  acc show ?thesis by (auto simp: getData_def)
qed

subsection \<open>Variables/Nodes/Alt.py\<close>

subsubsection \<open>Alt.parse\<close>

lemma Alt_yield_all:
  "list_all (\<lambda>q. getData q child \<noteq> None) qs \<Longrightarrow>
   Alt_yield self_id child qs =
     (map (\<lambda>q. addResult q self_id (case getData q child of None \<Rightarrow> [] | Some v \<Rightarrow> v)) qs, None)"
  by (induction qs) auto

lemma Alt_parse_children_all:
  "list_all (child_ended_well child_parse) cps \<Longrightarrow>
   Alt_parse_children child_parse self_id cps =
     (concat (map (child_successes child_parse self_id) cps), None)"
proof (induction cps)
  case Nil
  then show ?case by simp
next
  case (Cons cp cps)
  obtain child p where cp: "cp = (child, p)" by (cases cp)
  obtain qs e where run: "child_parse child p = (qs, e)" by (cases "child_parse child p")
  from Cons.prems cp run have e: "e = None"
    and qs: "list_all (\<lambda>q. getData q child \<noteq> None) qs"
    by (simp_all add: child_ended_well_def)
  from Cons.prems have "list_all (child_ended_well child_parse) cps" by simp
  with Cons.IH have IH: "Alt_parse_children child_parse self_id cps =
     (concat (map (child_successes child_parse self_id) cps), None)" by simp
  have head: "child_successes child_parse self_id (child, p) =
      map (\<lambda>q. addResult q self_id (case getData q child of None \<Rightarrow> [] | Some v \<Rightarrow> v)) qs"
    by (simp add: child_successes_def run)
  show ?case
    by (simp add: cp run e Alt_yield_all [OF qs] IH head)
qed

lemma zip_self_map: "zip xs (map f xs) = map (\<lambda>x. (x, f x)) xs"
  by (induction xs) simp_all

lemma Alt_parserPaths_children:
  "children self \<noteq> [] \<Longrightarrow> map fst (Alt_parserPaths self path d) = children self"
  by (cases "children self") (simp_all add: Alt_parserPaths_def Let_def zip_self_map comp_def)

lemma Alt_parserPaths_data:
  assumes "children self \<noteq> []" and "cp \<in> set (Alt_parserPaths self path d)"
  shows "getData (snd cp) (fst cp) = Some d"
proof -
  obtain c cs where cs: "children self = c # cs" using assms(1) by (cases "children self") auto
  from assms(2) show ?thesis
    by (auto simp: Alt_parserPaths_def Let_def cs zip_self_map duplicate_def getData_assignData)
qed

text \<open>
  C2, amended: whether or not a callback is present, \<^verbatim>\<open>Alt.parse\<close> is the same: it
  makes one path per child, in declaration order, each with the data to parse assigned to
  its child, recurses on every child, and (when every child ends without an exception)
  yields the successful paths of each child in declaration order.
\<close>

theorem C2_Alt_parse_every_child:
  "Alt_parse child_parse (self\<lparr>callback := cb\<rparr>) path = Alt_parse child_parse self path \<and>
   (children self \<noteq> [] \<and> getData path (alt_id self) = Some dataToParse \<longrightarrow>
      map fst (Alt_parserPaths self path dataToParse) = children self \<and>
      list_all (\<lambda>cp. getData (snd cp) (fst cp) = Some dataToParse)
        (Alt_parserPaths self path dataToParse) \<and>
      (list_all (child_ended_well child_parse) (Alt_parserPaths self path dataToParse) \<longrightarrow>
         Alt_parse child_parse self path =
           (concat (map (child_successes child_parse (alt_id self))
                      (Alt_parserPaths self path dataToParse)), None)))"
proof (intro conjI impI)
  show "Alt_parse child_parse (self\<lparr>callback := cb\<rparr>) path = Alt_parse child_parse self path"
    by (simp add: Alt_parse_def Alt_parserPaths_def split: option.split)
next
  assume "children self \<noteq> [] \<and> getData path (alt_id self) = Some dataToParse"
  then show "map fst (Alt_parserPaths self path dataToParse) = children self"
    by (simp add: Alt_parserPaths_children)
next
  assume "children self \<noteq> [] \<and> getData path (alt_id self) = Some dataToParse"
  then show "list_all (\<lambda>cp. getData (snd cp) (fst cp) = Some dataToParse)
        (Alt_parserPaths self path dataToParse)"
    by (auto simp: list_all_iff dest: Alt_parserPaths_data)
next
  assume a: "children self \<noteq> [] \<and> getData path (alt_id self) = Some dataToParse"
    and b: "list_all (child_ended_well child_parse) (Alt_parserPaths self path dataToParse)"
  from a Alt_parse_children_all [OF b, of "alt_id self"]
  show "Alt_parse child_parse self path =
           (concat (map (child_successes child_parse (alt_id self))
                      (Alt_parserPaths self path dataToParse)), None)"
    by (simp add: Alt_parse_def)
qed

text \<open>
  C2, as stated, fails: on the input \<^verbatim>\<open>11\<close>, an \<^verbatim>\<open>Alt\<close> of the children 2 and 1 whose
  callback selects the child of index 1 yields two paths, the first from the child of
  index 0, and not only the path of the selected child.
\<close>

theorem C2_callback_counterexample:
  "map (\<lambda>q. getData q 0)
     (fst (Alt_parse ones_parse
        \<lparr>alt_id = 0, children = [2, 1], callback = Some (\<lambda>path children. IntResult 1)\<rparr>
        \<lparr>dataAssignedToVariable = [0 \<mapsto> [True, True]], memory = Map.empty\<rparr>))
   = [Some [True, True], Some [True]]"
  by code_simp

theorem C2_Alt_parse_every_child_witness:
  "map fst (Alt_parserPaths
        \<lparr>alt_id = 0, children = [2, 1], callback = None\<rparr>
        \<lparr>dataAssignedToVariable = [0 \<mapsto> [True, True]], memory = Map.empty\<rparr> [True, True])
     = [2, 1] \<and>
   snd (Alt_parse ones_parse
        \<lparr>alt_id = 0, children = [2, 1], callback = None\<rparr>
        \<lparr>dataAssignedToVariable = [0 \<mapsto> [True, True]], memory = Map.empty\<rparr>) = None \<and>
   map (\<lambda>q. getData q 0)
     (fst (Alt_parse ones_parse
        \<lparr>alt_id = 0, children = [2, 1], callback = None\<rparr>
        \<lparr>dataAssignedToVariable = [0 \<mapsto> [True, True]], memory = Map.empty\<rparr>))
     = [Some [True, True], Some [True]]"
proof -
  let ?alt = "\<lparr>alt_id = 0, children = [2, 1], callback = None\<rparr>"
  let ?path = "\<lparr>dataAssignedToVariable = [0 \<mapsto> [True, True]], memory = Map.empty\<rparr>"
  have well: "list_all (child_ended_well ones_parse) (Alt_parserPaths ?alt ?path [True, True])"
    by code_simp
  have data: "getData ?path (alt_id ?alt) = Some [True, True]"
    by (simp add: getData_def)
  have yielded: "map (\<lambda>q. getData q 0)
      (concat (map (child_successes ones_parse (alt_id ?alt))
                 (Alt_parserPaths ?alt ?path [True, True])))
      = [Some [True, True], Some [True]]"
    by code_simp
  from C2_Alt_parse_every_child
         [where child_parse = ones_parse and self = ?alt and cb = None and path = ?path
            and dataToParse = "[True, True]"]
       well data yielded
  show ?thesis by simp
qed

subsubsection \<open>The bits recorded by Alt.specialize\<close>

lemma Alt_record_bits:
  "Alt_record self_id child qs = Inr ps \<Longrightarrow> p \<in> set ps \<Longrightarrow>
   getData p self_id \<noteq> None \<and> getData p self_id = getData p child"
proof (induction qs arbitrary: ps)
  case Nil
  then show ?case by simp
next
  case (Cons q qs)
  from Cons.prems(1) obtain v rs where v: "getData q child = Some v"
    and rs: "Alt_record self_id child qs = Inr rs"
    and ps: "ps = addResult q self_id v # rs"
    by (auto split: option.splits sum.splits)
  from Cons.prems(2) ps consider "p = addResult q self_id v" | "p \<in> set rs" by auto
  then show ?case
  proof cases
    case 1
    with v show ?thesis by (simp add: getData_def addResult_def assignData_def)
  next
    case 2
    from Cons.IH [OF rs 2] show ?thesis .
  qed
qed

lemma Alt_select_child_member:
  "Alt_select_child env self path fuzz w = (Inr child, w') \<Longrightarrow> children self \<noteq> [] \<Longrightarrow>
   child \<in> set (children self)"
  by (auto simp: Alt_select_child_def py_index_def Let_def
        split: option.splits prod.splits sum.splits if_splits cbk_result.splits)

subsubsection \<open>The child chosen by Alt.specialize\<close>

lemma Alt_specialize_bits:
  assumes run: "Alt_specialize env self path fuzz w = (Inr paths, w')"
      and shuffle: "\<forall>ps v. set (fst (random_shuffle env ps v)) = set ps"
  shows "\<exists>child w1. Alt_select_child env self path fuzz w = (Inr child, w1) \<and>
           child \<in> set (children self) \<and>
           (\<forall>p \<in> set paths. getData p (alt_id self) \<noteq> None \<and>
                             getData p (alt_id self) = getData p child)"
proof -
  from run have ne: "children self \<noteq> []"
    by (auto simp: Alt_specialize_def split: if_splits)
  from run ne obtain child w1 where sel: "Alt_select_child env self path fuzz w = (Inr child, w1)"
    by (auto simp: Alt_specialize_def split: prod.splits sum.splits)
  from run ne sel obtain qs w2 where
    "child_specialize env child (duplicate path) fuzz w1 = (Inr qs, w2)"
    by (auto simp: Alt_specialize_def Let_def split: prod.splits sum.splits)
  with run ne sel obtain ps where rec: "Alt_record (alt_id self) child qs = Inr ps"
    and sh: "random_shuffle env ps w2 = (paths, w')"
    by (auto simp: Alt_specialize_def Let_def split: prod.splits sum.splits)
  from shuffle sh have "set paths = set ps" by (metis fst_conv)
  with Alt_record_bits [OF rec]
  have "\<forall>p \<in> set paths. getData p (alt_id self) \<noteq> None \<and>
                          getData p (alt_id self) = getData p child" by blast
  with sel Alt_select_child_member [OF sel ne] show ?thesis by blast
qed

text \<open>
  C5: the child is the one at the index the mutator generates when the fuzzing
  configuration has a mutator for the \<^verbatim>\<open>Alt\<close> (and the index is one of a child); else the
  one at the index the callback returns, when there is a callback; else the one at the
  index drawn at random, which is always the index of a child. When \<^verbatim>\<open>specialize\<close>
  returns paths, on each of them the bits recorded for the \<^verbatim>\<open>Alt\<close> are the bits of the
  chosen child. (\<^verbatim>\<open>random.shuffle\<close> is taken to return the paths it was given, in some
  order.)
\<close>

theorem C5_Alt_specialize_selection:
  "(fuzz_mutator env fuzz (alt_id self) = Some mutator \<and>
    mutator_generate env mutator w = (Inr g, wa) \<and> 0 \<le> g \<and> g < int (length (children self)) \<longrightarrow>
      Alt_select_child env self path fuzz w = (Inr (children self ! nat g), wa)) \<and>
   (fuzz_mutator env fuzz (alt_id self) = None \<and> callback self = Some cbk \<and>
    cbk path (children self) = IntResult i \<longrightarrow>
      Alt_select_child env self path fuzz w = (py_index (children self) i, w)) \<and>
   (fuzz_mutator env fuzz (alt_id self) = None \<and> callback self = None \<and>
    random_below env (length (children self)) w = (r, wa) \<and> children self \<noteq> [] \<longrightarrow>
      Alt_select_child env self path fuzz w
        = (Inr (children self ! (r mod length (children self))), wa) \<and>
      r mod length (children self) < length (children self)) \<and>
   ((\<forall>ps v. set (fst (random_shuffle env ps v)) = set ps) \<and>
    Alt_specialize env self path fuzz w = (Inr paths, w') \<longrightarrow>
      (\<exists>child wa. Alt_select_child env self path fuzz w = (Inr child, wa) \<and>
         child \<in> set (children self) \<and>
         (\<forall>p \<in> set paths. getData p (alt_id self) \<noteq> None \<and>
                           getData p (alt_id self) = getData p child)))"
proof (intro conjI impI)
  assume "fuzz_mutator env fuzz (alt_id self) = Some mutator \<and>
    mutator_generate env mutator w = (Inr g, wa) \<and> 0 \<le> g \<and> g < int (length (children self))"
  then show "Alt_select_child env self path fuzz w = (Inr (children self ! nat g), wa)"
    by (simp add: Alt_select_child_def)
next
  assume "fuzz_mutator env fuzz (alt_id self) = None \<and> callback self = Some cbk \<and>
    cbk path (children self) = IntResult i"
  then show "Alt_select_child env self path fuzz w = (py_index (children self) i, w)"
    by (simp add: Alt_select_child_def)
next
  assume "fuzz_mutator env fuzz (alt_id self) = None \<and> callback self = None \<and>
    random_below env (length (children self)) w = (r, wa) \<and> children self \<noteq> []"
  then show "Alt_select_child env self path fuzz w
        = (Inr (children self ! (r mod length (children self))), wa)"
    by (simp add: Alt_select_child_def)
next
  assume "fuzz_mutator env fuzz (alt_id self) = None \<and> callback self = None \<and>
    random_below env (length (children self)) w = (r, wa) \<and> children self \<noteq> []"
  then show "r mod length (children self) < length (children self)" by simp
next
  assume a: "(\<forall>ps v. set (fst (random_shuffle env ps v)) = set ps) \<and>
    Alt_specialize env self path fuzz w = (Inr paths, w')"
  then have s: "\<forall>ps v. set (fst (random_shuffle env ps v)) = set ps" ..
  from a have r: "Alt_specialize env self path fuzz w = (Inr paths, w')" ..
  from Alt_specialize_bits [OF r s] show "\<exists>child wa. Alt_select_child env self path fuzz w = (Inr child, wa) \<and>
         child \<in> set (children self) \<and>
         (\<forall>p \<in> set paths. getData p (alt_id self) \<noteq> None \<and>
                           getData p (alt_id self) = getData p child)"
    .
qed

text \<open>
  C10: when the mutator of the \<^verbatim>\<open>Alt\<close> generates \<open>g\<close>, the child of index \<open>g\<close> is chosen
  if \<open>0 \<le> g < len(children)\<close>, and \<^verbatim>\<open>specialize\<close> raises \<^verbatim>\<open>ValueError\<close> otherwise. The
  interval of the positions of the default mutator is \<open>(0, len(children))\<close>, and its upper
  end, which belongs to it, is not the index of a child.
\<close>

theorem C10_fuzz_index_out_of_range:
  "(fuzz_mutator env fuzz (alt_id self) = Some mutator \<and>
    mutator_generate env mutator w = (Inr g, wa) \<and> children self \<noteq> [] \<longrightarrow>
      (0 \<le> g \<and> g < int (length (children self)) \<longrightarrow>
         Alt_select_child env self path fuzz w = (Inr (children self ! nat g), wa)) \<and>
      (\<not> (0 \<le> g \<and> g < int (length (children self))) \<longrightarrow>
         Alt_specialize env self path fuzz w = (Inl ValueError, wa))) \<and>
   (length (children self) \<le> 255 \<longrightarrow>
      AlternativeMutator_domain_interval (children self)
        = Inr (0, int (length (children self))) \<and>
      Integer_in_interval (0, int (length (children self))) (int (length (children self))) \<and>
      \<not> int (length (children self)) < int (length (children self)))"
  by (auto simp: Alt_select_child_def Alt_specialize_def AlternativeMutator_domain_interval_def
        Integer_normalizeInterval_def Integer_in_interval_def getMinStorageValue_def
        getMaxStorageValue_def Let_def)

theorem C5_Alt_specialize_selection_witness:
  "Alt_select_child example_specializing
     \<lparr>alt_id = 0, children = [2, 1], callback = Some (\<lambda>path children. IntResult (- 1))\<rparr>
     \<lparr>dataAssignedToVariable = Map.empty, memory = Map.empty\<rparr> None 0 = (Inr 1, 0) \<and>
   Alt_select_child example_specializing
     \<lparr>alt_id = 0, children = [2, 1], callback = Some (\<lambda>path children. IntResult (- 1))\<rparr>
     \<lparr>dataAssignedToVariable = Map.empty, memory = Map.empty\<rparr> (Some 0) 0 = (Inr 2, 0) \<and>
   Alt_select_child example_specializing
     \<lparr>alt_id = 0, children = [2, 1], callback = None\<rparr>
     \<lparr>dataAssignedToVariable = Map.empty, memory = Map.empty\<rparr> None 1 = (Inr 1, 2) \<and>
   map (\<lambda>p. (getData p 0, getData p 1))
     (case Alt_specialize example_specializing
        \<lparr>alt_id = 0, children = [2, 1], callback = Some (\<lambda>path children. IntResult (- 1))\<rparr>
        \<lparr>dataAssignedToVariable = Map.empty, memory = Map.empty\<rparr> None 0
      of (Inl e, w) \<Rightarrow> [] | (Inr paths, w) \<Rightarrow> paths)
     = [(Some [True], Some [True])]"
proof -
  let ?cbk = "\<lambda>(path::Path) (children::nat list). IntResult (- 1)"
  let ?alt = "\<lparr>alt_id = 0, children = [2, 1], callback = Some ?cbk\<rparr>"
  let ?path = "\<lparr>dataAssignedToVariable = Map.empty, memory = Map.empty\<rparr>"
  let ?out = "[addResult (addResult ?path 1 [True]) 0 [True]]"
  have run: "Alt_specialize example_specializing ?alt ?path None 0 = (Inr ?out, 0)"
    by (simp add: Alt_specialize_def Alt_select_child_def fuzz_mutator_def py_index_def
          example_specializing_def duplicate_def getData_def addResult_def assignData_def)
  have shuffle: "\<forall>ps v. set (fst (random_shuffle example_specializing ps v)) = set ps"
    by (simp add: example_specializing_def)
  note sel = C5_Alt_specialize_selection
  have by_callback:
    "Alt_select_child example_specializing ?alt ?path None 0 = (Inr 1, 0)"
    using sel [where env = example_specializing and self = ?alt and fuzz = None
                 and cbk = ?cbk and i = "- 1" and path = ?path and w = 0,
               THEN conjunct2, THEN conjunct1]
    by (simp add: fuzz_mutator_def py_index_def)
  have by_fuzz:
    "Alt_select_child example_specializing ?alt ?path (Some 0) 0 = (Inr 2, 0)"
    using sel [where env = example_specializing and self = ?alt and fuzz = "Some 0"
                 and mutator = 0 and g = 0 and w = 0 and wa = 0 and path = ?path,
               THEN conjunct1]
    by (simp add: fuzz_mutator_def example_specializing_def)
  have by_random:
    "Alt_select_child example_specializing (?alt\<lparr>callback := None\<rparr>) ?path None 1 = (Inr 1, 2)"
    using sel [where env = example_specializing and self = "?alt\<lparr>callback := None\<rparr>"
                 and fuzz = None and r = 1 and w = 1 and wa = 2 and path = ?path,
               THEN conjunct2, THEN conjunct2, THEN conjunct1]
    by (simp add: fuzz_mutator_def example_specializing_def)
  have recorded:
    "\<exists>child wa. Alt_select_child example_specializing ?alt ?path None 0 = (Inr child, wa) \<and>
       child \<in> set (children ?alt) \<and>
       (\<forall>p \<in> set ?out. getData p (alt_id ?alt) \<noteq> None \<and>
                         getData p (alt_id ?alt) = getData p child)"
    using sel [where env = example_specializing and self = ?alt and fuzz = None
                 and path = ?path and w = 0 and paths = ?out and w' = 0,
               THEN conjunct2, THEN conjunct2, THEN conjunct2]
          run shuffle
    by blast
  from by_callback by_fuzz by_random run show ?thesis
    by (simp add: getData_def addResult_def assignData_def)
qed

theorem C10_fuzz_index_out_of_range_witness:
  "Alt_specialize example_specializing
     \<lparr>alt_id = 0, children = [2, 1], callback = None\<rparr>
     \<lparr>dataAssignedToVariable = Map.empty, memory = Map.empty\<rparr> (Some 2) 0
     = (Inl ValueError, 0) \<and>
   Alt_select_child example_specializing
     \<lparr>alt_id = 0, children = [2, 1], callback = None\<rparr>
     \<lparr>dataAssignedToVariable = Map.empty, memory = Map.empty\<rparr> (Some 1) 0 = (Inr 1, 0) \<and>
   AlternativeMutator_domain_interval [2, 1] = Inr (0, 2) \<and>
   Integer_in_interval (0, 2) 2"
proof -
  let ?alt = "\<lparr>alt_id = 0, children = [2, 1], callback = None\<rparr>"
  let ?path = "\<lparr>dataAssignedToVariable = Map.empty, memory = Map.empty\<rparr>"
  from C10_fuzz_index_out_of_range
         [where env = example_specializing and self = ?alt and fuzz = "Some 2" and mutator = 2
            and g = 2 and w = 0 and wa = 0 and path = ?path]
       C10_fuzz_index_out_of_range
         [where env = example_specializing and self = ?alt and fuzz = "Some 1" and mutator = 1
            and g = 1 and w = 0 and wa = 0 and path = ?path]
  show ?thesis
    by (simp add: fuzz_mutator_def example_specializing_def)
qed

subsection \<open>Variables/Leafs/AbstractVariableLeaf.py: specialize\<close>

subsubsection \<open>The end of the iterator\<close>

lemma fuzz_generate_ended:
  "fuzz_generate env mutator self_id path n w = ((yielded, ended), w') \<Longrightarrow>
   ended \<noteq> Some MaxFuzzingException"
proof (induction n arbitrary: w yielded ended w')
  case 0
  then show ?case by simp
next
  case (Suc n)
  obtain r w1 where gen: "leaf_mutator_generate env mutator w = (r, w1)"
    by (cases "leaf_mutator_generate env mutator w")
  show ?case
  proof (cases r)
    case (Inl e)
    with Suc.prems gen show ?thesis by (auto split: if_splits)
  next
    case (Inr v)
    obtain ys e w2 where rest: "fuzz_generate env mutator self_id path n w1 = ((ys, e), w2)"
      by (metis prod.exhaust)
    from Suc.IH [OF rest] have "e \<noteq> Some MaxFuzzingException" .
    with Suc.prems gen Inr rest show ?thesis by (simp add: Let_def)
  qed
qed

lemma fuzz_generate_never_MaxFuzzing:
  "snd (fst (fuzz_generate env mutator self_id path n w)) \<noteq> Some MaxFuzzingException"
  using fuzz_generate_ended [of env mutator self_id path n w]
  by (metis prod.collapse)

lemma fuzz_generate_stops:
  "generated_values env mutator k w = Some (vs, wk) \<Longrightarrow>
   leaf_mutator_generate env mutator wk = (Inl MaxFuzzingException, w') \<Longrightarrow> k < n \<Longrightarrow>
   fuzz_generate env mutator self_id path n w =
     ((map (\<lambda>v. addResult (duplicate path) self_id (frombytes v)) vs, None), w')"
proof (induction k arbitrary: w vs n)
  case 0
  then obtain m where "n = Suc m" by (cases n) auto
  with 0 show ?case by simp
next
  case (Suc k)
  from Suc.prems(3) obtain m where n: "n = Suc m" and km: "k < m" by (cases n) auto
  from Suc.prems(1) obtain v w1 vs' where
    gen: "leaf_mutator_generate env mutator w = (Inr v, w1)" and
    rest: "generated_values env mutator k w1 = Some (vs', wk)" and
    vs: "vs = v # vs'"
    by (auto split: prod.splits sum.splits option.splits)
  from Suc.IH [OF rest Suc.prems(2) km]
  show ?case by (simp add: n gen vs Let_def)
qed

text \<open>
  C7: for a leaf whose mutator is in mode GENERATE or FIXED, \<^verbatim>\<open>specialize\<close> returns the
  generator \<^verbatim>\<open>fuzz_generate\<close>; the generator never ends with \<^verbatim>\<open>MaxFuzzingException\<close>;
  and when the mutator raises it after \<open>k\<close> values (fewer than the count), the generator
  has yielded the \<open>k\<close> paths of these values, yields nothing more, calls the mutator no
  more, and ends as an exhausted iterator does.
\<close>

theorem C7_MaxFuzzing_ends_iterator:
  "(leaf_mutator env fuzz self_id = Some mutator \<and>
    (mutator_mode env mutator = GENERATE \<or> mutator_mode env mutator = FIXED) \<longrightarrow>
      AbstractVariableLeaf_specialize env self dataType_count self_id sc path fuzz a w =
        (Fuzz_generated (fst (fuzz_generate env mutator self_id path (mutator_count env mutator w) w)),
         snd (fuzz_generate env mutator self_id path (mutator_count env mutator w) w))) \<and>
   snd (fst (fuzz_generate env mutator self_id path n w)) \<noteq> Some MaxFuzzingException \<and>
   (generated_values env mutator k w = Some (vs, wk) \<and>
    leaf_mutator_generate env mutator wk = (Inl MaxFuzzingException, w') \<and> k < n \<longrightarrow>
      fuzz_generate env mutator self_id path n w =
        ((map (\<lambda>v. addResult (duplicate path) self_id (frombytes v)) vs, None), w'))"
proof (intro conjI impI)
  assume "leaf_mutator env fuzz self_id = Some mutator \<and>
    (mutator_mode env mutator = GENERATE \<or> mutator_mode env mutator = FIXED)"
  then show "AbstractVariableLeaf_specialize env self dataType_count self_id sc path fuzz a w =
        (Fuzz_generated (fst (fuzz_generate env mutator self_id path (mutator_count env mutator w) w)),
         snd (fuzz_generate env mutator self_id path (mutator_count env mutator w) w))"
    by (auto simp: AbstractVariableLeaf_specialize_def AbstractVariableLeaf_count_def
          split: prod.splits)
next
  show "snd (fst (fuzz_generate env mutator self_id path n w)) \<noteq> Some MaxFuzzingException"
    by (rule fuzz_generate_never_MaxFuzzing)
next
  assume a: "generated_values env mutator k w = Some (vs, wk) \<and>
    leaf_mutator_generate env mutator wk = (Inl MaxFuzzingException, w') \<and> k < n"
  then have gv: "generated_values env mutator k w = Some (vs, wk)"
    and raised: "leaf_mutator_generate env mutator wk = (Inl MaxFuzzingException, w')"
    and kn: "k < n" by simp_all
  from fuzz_generate_stops [OF gv raised kn]
  show "fuzz_generate env mutator self_id path n w =
        ((map (\<lambda>v. addResult (duplicate path) self_id (frombytes v)) vs, None), w')" .
qed

theorem C7_MaxFuzzing_ends_iterator_witness:
  "snd (fst (fuzz_generate example_leaf_fuzzing GENERATE 0
          \<lparr>dataAssignedToVariable = Map.empty, memory = Map.empty\<rparr> 10 2)) = None \<and>
   map (\<lambda>p. getData p 0)
     (fst (fst (fuzz_generate example_leaf_fuzzing GENERATE 0
          \<lparr>dataAssignedToVariable = Map.empty, memory = Map.empty\<rparr> 10 2)))
     = [Some (frombytes [2]), Some (frombytes [1])]"
proof -
  let ?path = "\<lparr>dataAssignedToVariable = Map.empty, memory = Map.empty\<rparr>"
  have vals: "generated_values example_leaf_fuzzing GENERATE 2 2 = Some ([[2], [1]], 0)"
    by (simp add: example_leaf_fuzzing_def numeral_2_eq_2)
  have raised: "leaf_mutator_generate example_leaf_fuzzing GENERATE 0
                  = (Inl MaxFuzzingException, 0)"
    by (simp add: example_leaf_fuzzing_def)
  from C7_MaxFuzzing_ends_iterator
         [where env = example_leaf_fuzzing and mutator = GENERATE and k = 2 and w = 2
            and vs = "[[2], [1]]" and wk = 0 and w' = 0 and n = 10 and self_id = 0
            and path = ?path, THEN conjunct2, THEN conjunct2]
       vals raised
  show ?thesis by (simp add: getData_addResult)
qed

subsection \<open>Parser/FlowParser.py\<close>

subsubsection \<open>Every flow yielded is a complete segmentation\<close>

lemma segmentation_flow_len:
  assumes "segmentation parseBitarray symbols mem data flow"
      and "within_input parseBitarray"
  shows "flow_len flow = length data"
  using assms(1)
proof (induction rule: segmentation.induct)
  case (last_segment symbol parse_result mem' mem data)
  from assms(2) last_segment(2) have "parse_result_len parse_result \<le> length data"
    by (fastforce simp: within_input_def list_all_iff)
  with last_segment(3) show ?case by (simp add: flow_len_def)
next
  case (next_segment symbol parse_result mem' mem data flow)
  then show ?case by (simp add: flow_len_def)
qed

lemma parse_results_loop_sound:
  assumes rec: "\<And>d m flow. flow \<in> set (fst (recurse d m)) \<Longrightarrow> d \<noteq> [] \<Longrightarrow>
                  segmentation parseBitarray symbols m d flow"
      and data: "data \<noteq> []" and symbol: "symbol \<in> set symbols"
  shows "set results \<subseteq> set (fst (parseBitarray mem data symbol)) \<Longrightarrow>
         flow \<in> set (fst (parse_results_loop recurse data symbol results)) \<Longrightarrow>
         segmentation parseBitarray symbols mem data flow"
proof (induction results)
  case Nil
  then show ?case by simp
next
  case (Cons a results)
  obtain r m where a: "a = (r, m)" by (cases a)
  let ?rem = "drop (parse_result_len r) data"
  from Cons.prems(1) a have r: "(r, m) \<in> set (fst (parseBitarray mem data symbol))"
    and sub: "set results \<subseteq> set (fst (parseBitarray mem data symbol))" by simp_all
  obtain later e where later: "parse_results_loop recurse data symbol results = (later, e)"
    by (cases "parse_results_loop recurse data symbol results")
  have IH: "flow \<in> set later \<Longrightarrow> segmentation parseBitarray symbols mem data flow"
    using Cons.IH [OF sub] later by simp
  show ?case
  proof (cases "?rem = []")
    case True
    with Cons.prems(2) a later have "flow = [(symbol, r)] \<or> flow \<in> set later"
      by (simp add: Let_def)
    then show ?thesis
    proof
      assume "flow = [(symbol, r)]"
      with segmentation.last_segment
             [where parseBitarray = parseBitarray and mem = mem, OF symbol r True]
      show ?thesis by simp
    next
      assume "flow \<in> set later"
      then show ?thesis by (rule IH)
    qed
  next
    case False
    obtain children ended where ch: "recurse ?rem m = (children, ended)"
      by (cases "recurse ?rem m")
    from Cons.prems(2) a later ch False
    have "flow \<in> (\<lambda>child. (symbol, r) # child) ` set children \<or> flow \<in> set later"
      by (auto simp: Let_def split: if_splits)
    then show ?thesis
    proof
      assume "flow \<in> (\<lambda>child. (symbol, r) # child) ` set children"
      then obtain child where child: "child \<in> set children" and flow: "flow = (symbol, r) # child"
        by auto
      from child ch have "child \<in> set (fst (recurse ?rem m))" by simp
      from rec [OF this False] have "segmentation parseBitarray symbols m ?rem child" .
      from segmentation.next_segment
             [where parseBitarray = parseBitarray and mem = mem, OF symbol r False this]
           flow
      show ?thesis by simp
    next
      assume "flow \<in> set later"
      then show ?thesis by (rule IH)
    qed
  qed
qed

lemma parse_symbol_fst:
  "fst (parse_symbol parseBitarray recurse mem data symbol) =
     fst (parse_results_loop recurse data symbol (fst (parseBitarray mem data symbol)))"
  by (simp add: parse_symbol_def split: prod.splits option.splits)

lemma symbols_loop_sound:
  assumes rec: "\<And>d m flow. flow \<in> set (fst (recurse d m)) \<Longrightarrow> d \<noteq> [] \<Longrightarrow>
                  segmentation parseBitarray symbols m d flow"
      and data: "data \<noteq> []"
  shows "set syms \<subseteq> set symbols \<Longrightarrow>
         flow \<in> set (fst (symbols_loop parseBitarray recurse mem data syms)) \<Longrightarrow>
         segmentation parseBitarray symbols mem data flow"
proof (induction syms)
  case Nil
  then show ?case by simp
next
  case (Cons symbol syms)
  from Cons.prems(1) have symbol: "symbol \<in> set symbols" and sub: "set syms \<subseteq> set symbols"
    by simp_all
  obtain ys e where ps: "parse_symbol parseBitarray recurse mem data symbol = (ys, e)"
    by (cases "parse_symbol parseBitarray recurse mem data symbol")
  obtain zs e' where sl: "symbols_loop parseBitarray recurse mem data syms = (zs, e')"
    by (cases "symbols_loop parseBitarray recurse mem data syms")
  from Cons.prems(2) ps sl have "flow \<in> set ys \<or> flow \<in> set zs"
    by (auto split: option.splits)
  then show ?case
  proof
    assume "flow \<in> set ys"
    with ps parse_symbol_fst [of parseBitarray recurse mem data symbol]
    have "flow \<in> set (fst (parse_results_loop recurse data symbol
                              (fst (parseBitarray mem data symbol))))" by simp
    from parse_results_loop_sound [OF rec data symbol subset_refl this]
    show ?thesis by simp
  next
    assume "flow \<in> set zs"
    with Cons.IH [OF sub] sl show ?thesis by simp
  qed
qed

lemma parseFlow_internal_sound:
  "flow \<in> set (fst (parseFlow_internal parseBitarray symbols depth data mem)) \<Longrightarrow>
   segmentation parseBitarray symbols mem data flow"
proof (induction depth arbitrary: data mem flow)
  case 0
  then show ?case by simp
next
  case (Suc depth)
  from Suc.prems have data: "data \<noteq> []" by (auto split: if_splits)
  with Suc.prems have
    "flow \<in> set (fst (symbols_loop parseBitarray (parseFlow_internal parseBitarray symbols depth)
                         mem data symbols))" by simp
  from symbols_loop_sound [OF _ data subset_refl this] Suc.IH show ?case by blast
qed

subsubsection \<open>Every complete segmentation is yielded\<close>

lemma parse_results_loop_all:
  "list_all (recursion_ends recurse data) results \<Longrightarrow>
   parse_results_loop recurse data symbol results =
     (concat (map (segment_flows recurse data symbol) results), None)"
proof (induction results)
  case Nil
  then show ?case by simp
next
  case (Cons a results)
  obtain r m where a: "a = (r, m)" by (cases a)
  from Cons.prems have "list_all (recursion_ends recurse data) results" by simp
  with Cons.IH have IH: "parse_results_loop recurse data symbol results =
     (concat (map (segment_flows recurse data symbol) results), None)" by simp
  show ?case
  proof (cases "drop (parse_result_len r) data = []")
    case True
    then have head: "segment_flows recurse data symbol (r, m) = [[(symbol, r)]]"
      by (simp add: segment_flows_def)
    from True show ?thesis by (simp add: a IH head)
  next
    case False
    obtain children ended where ch: "recurse (drop (parse_result_len r) data) m = (children, ended)"
      by (cases "recurse (drop (parse_result_len r) data) m")
    from Cons.prems a False ch have "ended = None" by (simp add: recursion_ends_def)
    from False ch have head: "segment_flows recurse data symbol (r, m) =
        map (\<lambda>child. (symbol, r) # child) children"
      by (simp add: segment_flows_def)
    from False ch \<open>ended = None\<close> show ?thesis by (simp add: a IH head)
  qed
qed

lemma parse_symbol_all:
  assumes "list_all (recursion_ends recurse data) (fst (parseBitarray mem data symbol))"
      and "snd (parseBitarray mem data symbol) = None \<or>
           snd (parseBitarray mem data symbol) = Some InvalidParsingPathException"
  shows "parse_symbol parseBitarray recurse mem data symbol =
           (concat (map (segment_flows recurse data symbol) (fst (parseBitarray mem data symbol))),
            None)"
proof -
  obtain results ended where p: "parseBitarray mem data symbol = (results, ended)"
    by (cases "parseBitarray mem data symbol")
  from assms(1) p have "parse_results_loop recurse data symbol results =
     (concat (map (segment_flows recurse data symbol) results), None)"
    by (simp add: parse_results_loop_all)
  with assms(2) p show ?thesis by (auto simp: parse_symbol_def)
qed

lemma symbols_loop_all:
  assumes "ends_as_parser parseBitarray"
  shows "list_all (\<lambda>symbol. list_all (recursion_ends recurse data)
                     (fst (parseBitarray mem data symbol))) syms \<Longrightarrow>
         symbols_loop parseBitarray recurse mem data syms =
           (concat (map (\<lambda>symbol. concat (map (segment_flows recurse data symbol)
                                      (fst (parseBitarray mem data symbol)))) syms), None)"
proof (induction syms)
  case Nil
  then show ?case by simp
next
  case (Cons symbol syms)
  from Cons.prems have here: "list_all (recursion_ends recurse data)
      (fst (parseBitarray mem data symbol))"
    and there: "list_all (\<lambda>symbol. list_all (recursion_ends recurse data)
                     (fst (parseBitarray mem data symbol))) syms" by simp_all
  from assms have "snd (parseBitarray mem data symbol) = None \<or>
           snd (parseBitarray mem data symbol) = Some InvalidParsingPathException"
    by (simp add: ends_as_parser_def)
  from parse_symbol_all [where parseBitarray = parseBitarray and mem = mem, OF here this]
       Cons.IH [OF there]
  show ?case by simp
qed

lemma parseFlow_internal_complete:
  assumes bits: "consumes_bits parseBitarray" and ends: "ends_as_parser parseBitarray"
  shows "data \<noteq> [] \<Longrightarrow> length data < depth \<Longrightarrow>
         snd (parseFlow_internal parseBitarray symbols depth data mem) = None \<and>
         (\<forall>flow. segmentation parseBitarray symbols mem data flow \<longrightarrow>
            flow \<in> set (fst (parseFlow_internal parseBitarray symbols depth data mem)))"
proof (induction depth arbitrary: data mem)
  case 0
  then show ?case by simp
next
  case (Suc depth)
  let ?rec = "parseFlow_internal parseBitarray symbols depth"
  have shorter: "drop (parse_result_len r) data \<noteq> [] \<Longrightarrow>
      length (drop (parse_result_len r) data) < depth"
    if "(r, m) \<in> set (fst (parseBitarray mem data symbol))" for r m symbol
  proof -
    from bits that have "0 < parse_result_len r"
      by (fastforce simp: consumes_bits_def list_all_iff)
    moreover from Suc.prems(1) have "0 < length data" by simp
    ultimately have "length data - parse_result_len r < length data" by (rule diff_less)
    with Suc.prems(2) show ?thesis by simp
  qed
  have ends_all: "list_all (\<lambda>symbol. list_all (recursion_ends ?rec data)
                     (fst (parseBitarray mem data symbol))) symbols"
    unfolding list_all_iff recursion_ends_def
  proof (intro ballI)
    fix symbol rm
    assume "rm \<in> set (fst (parseBitarray mem data symbol))"
    then have in_results: "(fst rm, snd rm) \<in> set (fst (parseBitarray mem data symbol))" by simp
    show "drop (parse_result_len (fst rm)) data = [] \<or>
          snd (?rec (drop (parse_result_len (fst rm)) data) (snd rm)) = None"
    proof (cases "drop (parse_result_len (fst rm)) data = []")
      case True
      then show ?thesis by simp
    next
      case False
      from Suc.IH [OF False shorter [OF in_results False]] show ?thesis by simp
    qed
  qed
  from symbols_loop_all [OF ends ends_all] Suc.prems(1)
  have run: "parseFlow_internal parseBitarray symbols (Suc depth) data mem =
      (concat (map (\<lambda>symbol. concat (map (segment_flows ?rec data symbol)
                                 (fst (parseBitarray mem data symbol)))) symbols), None)"
    by simp
  have "flow \<in> set (fst (parseFlow_internal parseBitarray symbols (Suc depth) data mem))"
    if seg: "segmentation parseBitarray symbols mem data flow" for flow
    using seg
  proof (cases rule: segmentation.cases)
    case (last_segment symbol parse_result mem')
    then have "flow \<in> set (segment_flows ?rec data symbol (parse_result, mem'))"
      by (simp add: segment_flows_def)
    with last_segment show ?thesis unfolding run by force
  next
    case (next_segment symbol parse_result mem' rest)
    from Suc.IH [OF next_segment(4) shorter [OF next_segment(3) next_segment(4)]] next_segment(5)
    have "rest \<in> set (fst (?rec (drop (parse_result_len parse_result) data) mem'))" by simp
    with next_segment have "flow \<in> set (segment_flows ?rec data symbol (parse_result, mem'))"
      by (simp add: segment_flows_def)
    with next_segment show ?thesis unfolding run by force
  qed
  with run show ?case by simp
qed

subsubsection \<open>parseFlow\<close>

lemma length_bits_of_byte_from: "length (bits_of_byte_from k b) = k"
  by (induction k) simp_all

lemma length_frombytes: "length (frombytes raw) = 8 * length raw"
  by (induction raw) (simp_all add: frombytes_def length_bits_of_byte_from)

text \<open>
  On an empty message \<^verbatim>\<open>_parseFlow_internal\<close> raises the exception of line 200.
\<close>

lemma parseFlow_nothing_to_parse:
  "symbols \<noteq> [] \<Longrightarrow> parseFlow parseBitarray (Suc depth) mem [] symbols = Inl Exception"
  by (simp add: parseFlow_def frombytes_def)

text \<open>
  C8, amended: a flow that \<^verbatim>\<open>parseFlow\<close> returns is a complete segmentation, each of its
  segments a result of parsing the remaining bits with a symbol of the list, and (for a
  parser whose slices are taken from its input) its bit-lengths add up to the length of
  the input. For a message that is not empty, a parser that consumes at least one bit
  per result and raises nothing but \<^verbatim>\<open>InvalidParsingPathException\<close>, and a depth of
  recursion above the number of bits: \<^verbatim>\<open>parseFlow\<close> returns a flow when a complete
  segmentation exists and raises \<^verbatim>\<open>InvalidParsingPathException\<close> when none does.
  On an empty message it raises the plain \<^verbatim>\<open>Exception\<close> of line 200.
\<close>

theorem C8_parseFlow_segmentation:
  "(parseFlow parseBitarray depth mem message_data symbols = Inr flow \<longrightarrow>
      segmentation parseBitarray symbols mem (frombytes message_data) flow \<and>
      (within_input parseBitarray \<longrightarrow> flow_len flow = length (frombytes message_data))) \<and>
   (symbols \<noteq> [] \<and> message_data \<noteq> [] \<and> consumes_bits parseBitarray \<and>
    ends_as_parser parseBitarray \<and> length (frombytes message_data) < depth \<longrightarrow>
      ((\<exists>flow. segmentation parseBitarray symbols mem (frombytes message_data) flow) \<longrightarrow>
         (\<exists>flow. parseFlow parseBitarray depth mem message_data symbols = Inr flow)) \<and>
      ((\<forall>flow. \<not> segmentation parseBitarray symbols mem (frombytes message_data) flow) \<longrightarrow>
         parseFlow parseBitarray depth mem message_data symbols
           = Inl InvalidParsingPathException)) \<and>
   (symbols \<noteq> [] \<and> 0 < depth \<longrightarrow>
      parseFlow parseBitarray depth mem [] symbols = Inl Exception)"
proof (intro conjI impI)
  assume ret: "parseFlow parseBitarray depth mem message_data symbols = Inr flow"
  then have "flow \<in> set (fst (parseFlow_internal parseBitarray symbols depth
                                 (frombytes message_data) mem))"
    by (auto simp: parseFlow_def split: if_splits prod.splits list.splits option.splits)
  then show seg: "segmentation parseBitarray symbols mem (frombytes message_data) flow"
    by (rule parseFlow_internal_sound)
  assume "within_input parseBitarray"
  with seg show "flow_len flow = length (frombytes message_data)"
    by (rule segmentation_flow_len)
next
  assume a: "symbols \<noteq> [] \<and> message_data \<noteq> [] \<and> consumes_bits parseBitarray \<and>
    ends_as_parser parseBitarray \<and> length (frombytes message_data) < depth"
  then have data: "frombytes message_data \<noteq> []"
    using length_frombytes [of message_data] by auto
  from a have bits: "consumes_bits parseBitarray" and ends: "ends_as_parser parseBitarray"
    and depth: "length (frombytes message_data) < depth" by simp_all
  note complete = parseFlow_internal_complete [OF bits ends data depth, of symbols mem]
  assume "\<exists>flow. segmentation parseBitarray symbols mem (frombytes message_data) flow"
  with complete obtain flow where
    "flow \<in> set (fst (parseFlow_internal parseBitarray symbols depth (frombytes message_data) mem))"
    by blast
  with a show "\<exists>flow. parseFlow parseBitarray depth mem message_data symbols = Inr flow"
    by (auto simp: parseFlow_def split: prod.splits list.splits option.splits)
next
  assume a: "symbols \<noteq> [] \<and> message_data \<noteq> [] \<and> consumes_bits parseBitarray \<and>
    ends_as_parser parseBitarray \<and> length (frombytes message_data) < depth"
  then have data: "frombytes message_data \<noteq> []"
    using length_frombytes [of message_data] by auto
  from a have bits: "consumes_bits parseBitarray" and ends: "ends_as_parser parseBitarray"
    and depth: "length (frombytes message_data) < depth" by simp_all
  note complete = parseFlow_internal_complete [OF bits ends data depth, of symbols mem]
  assume none: "\<forall>flow. \<not> segmentation parseBitarray symbols mem (frombytes message_data) flow"
  have "fst (parseFlow_internal parseBitarray symbols depth (frombytes message_data) mem) = []"
  proof (rule ccontr)
    assume "fst (parseFlow_internal parseBitarray symbols depth (frombytes message_data) mem) \<noteq> []"
    then obtain flow where
      "flow \<in> set (fst (parseFlow_internal parseBitarray symbols depth (frombytes message_data) mem))"
      by (meson last_in_set)
    from parseFlow_internal_sound [OF this] none show False by blast
  qed
  with complete a show "parseFlow parseBitarray depth mem message_data symbols
           = Inl InvalidParsingPathException"
    by (auto simp: parseFlow_def split: prod.splits list.splits option.splits)
next
  assume "symbols \<noteq> [] \<and> 0 < depth"
  then obtain d where "depth = Suc d" and "symbols \<noteq> []" by (cases depth) auto
  then show "parseFlow parseBitarray depth mem [] symbols = Inl Exception"
    by (simp add: parseFlow_nothing_to_parse)
qed

text \<open>
  C8, as stated, fails: on an empty message, for which a parser that accepts nothing
  leaves no complete segmentation, \<^verbatim>\<open>parseFlow\<close> raises the plain \<^verbatim>\<open>Exception\<close> "Nothing
  to parse", not an \<^verbatim>\<open>InvalidParsingPathException\<close>.
\<close>

theorem C8_nothing_to_parse_counterexample:
  "parseFlow (\<lambda>mem data symbol. ([], None)) 1000 () [] [0::nat] = Inl Exception \<and>
   Collect (segmentation (\<lambda>mem data symbol. ([], None)) [0::nat] () []) = {}"
proof
  have "(1000::nat) = Suc 999" by simp
  then show "parseFlow (\<lambda>mem data symbol. ([], None)) 1000 () [] [0::nat] = Inl Exception"
    by (simp only: parseFlow_nothing_to_parse list.distinct not_False_eq_True)
  show "Collect (segmentation (\<lambda>mem data symbol. ([], None)) [0::nat] () []) = {}"
    by (auto elim: segmentation.cases)
qed

text \<open>
  A parser whose only result consumes no bit: the recursion never ends, whatever the
  depth allowed, and \<^verbatim>\<open>parseFlow\<close> raises \<^verbatim>\<open>RecursionError\<close>.
\<close>

lemma parseFlow_internal_no_progress:
  "data \<noteq> [] \<Longrightarrow>
   parseFlow_internal (\<lambda>mem data symbol. ([([], mem)], None)) [symbol] depth data mem
     = ([], Some RecursionError)"
  by (induction depth arbitrary: mem)
     (simp_all add: parse_symbol_def parse_result_len_def)

lemma parseFlow_no_progress:
  "parseFlow (\<lambda>mem data symbol. ([([], mem)], None)) depth mem [255] [symbol]
     = Inl RecursionError"
proof -
  have "frombytes [255] \<noteq> []" using length_frombytes [of "[255]"] by auto
  then show ?thesis by (simp add: parseFlow_def parseFlow_internal_no_progress)
qed

text \<open>
  The first example of the docstring of \<^verbatim>\<open>FlowParser\<close> (lines 62-71).
\<close>

lemma constant_parser_doctest: "parseFlow constant_parser 1000 () [97, 97, 98, 98, 99, 99, 100, 100] [[97, 97, 98, 98], [99, 99, 100, 100]]
 = Inr [([97, 97, 98, 98], [frombytes [97, 97, 98, 98]]), ([99, 99, 100, 100], [frombytes [99, 99, 100, 100]])]"
  by code_simp

lemma constant_parser_within_input: "within_input constant_parser"
  unfolding within_input_def list_all_iff
proof (intro allI ballI)
  fix mem :: unit and data symbol r
  assume "r \<in> set (fst (constant_parser mem data symbol))"
  then have r: "fst r = [frombytes symbol]"
    and pre: "take (length (frombytes symbol)) data = frombytes symbol"
    by (auto simp: constant_parser_def split: if_splits)
  from pre have "length (frombytes symbol) \<le> length data"
    by (metis length_take min.cobounded1)
  with r show "parse_result_len (fst r) \<le> length data" by (simp add: parse_result_len_def)
qed

lemma constant_parser_consumes_bits: "consumes_bits constant_parser"
  by (auto simp: consumes_bits_def list_all_iff constant_parser_def parse_result_len_def
        length_frombytes split: if_splits)

lemma constant_parser_ends: "ends_as_parser constant_parser"
  by (simp add: ends_as_parser_def constant_parser_def)

theorem C8_parseFlow_segmentation_witness:
  "parseFlow constant_parser 1000 () [97, 97, 98, 98, 99, 99, 100, 100]
     [[97, 97, 98, 98], [99, 99, 100, 100]]
     = Inr [([97, 97, 98, 98], [frombytes [97, 97, 98, 98]]),
            ([99, 99, 100, 100], [frombytes [99, 99, 100, 100]])] \<and>
   flow_len [([97, 97, 98, 98] :: bytes, [frombytes [97, 97, 98, 98]]),
             ([99, 99, 100, 100], [frombytes [99, 99, 100, 100]])] = 64 \<and>
   parseFlow constant_parser 1000 () [97, 97, 98, 98, 99, 99]
     [[97, 97, 98, 98], [99, 99, 100, 100]]
     = Inl InvalidParsingPathException"
proof -
  let ?symbols = "[[97, 97, 98, 98], [99, 99, 100, 100]] :: bytes list"
  let ?flow = "[([97, 97, 98, 98], [frombytes [97, 97, 98, 98]]),
                ([99, 99, 100, 100], [frombytes [99, 99, 100, 100]])] :: bytes flow"
  have run: "parseFlow constant_parser 1000 () [97, 97, 98, 98, 99, 99, 100, 100] ?symbols
               = Inr ?flow"
    by code_simp
  from C8_parseFlow_segmentation
         [where parseBitarray = constant_parser and depth = 1000 and mem = "()"
            and message_data = "[97, 97, 98, 98, 99, 99, 100, 100]" and symbols = ?symbols
            and flow = ?flow, THEN conjunct1]
       run constant_parser_within_input
  have len: "flow_len ?flow = 64" by (simp add: length_frombytes)
  have stuck: "parseFlow constant_parser 1000 () [97, 97, 98, 98, 99, 99] ?symbols
                 = Inl InvalidParsingPathException"
    by code_simp
  have "\<forall>flow. \<not> segmentation constant_parser ?symbols () (frombytes [97, 97, 98, 98, 99, 99]) flow"
  proof (intro allI notI)
    fix flow
    assume "segmentation constant_parser ?symbols () (frombytes [97, 97, 98, 98, 99, 99]) flow"
    moreover have "frombytes [97, 97, 98, 98, 99, 99] \<noteq> []"
      using length_frombytes [of "[97, 97, 98, 98, 99, 99]"] by auto
    ultimately have "flow \<in> set (fst (parseFlow_internal constant_parser ?symbols 1000
                                   (frombytes [97, 97, 98, 98, 99, 99]) ()))"
      using parseFlow_internal_complete
              [OF constant_parser_consumes_bits constant_parser_ends,
               of "frombytes [97, 97, 98, 98, 99, 99]" 1000 ?symbols "()"]
      by (simp add: length_frombytes)
    moreover have "fst (parseFlow_internal constant_parser ?symbols 1000
                          (frombytes [97, 97, 98, 98, 99, 99]) ()) = []"
      by code_simp
    ultimately show False by simp
  qed
  with C8_parseFlow_segmentation
         [where parseBitarray = constant_parser and depth = 1000 and mem = "()"
            and message_data = "[97, 97, 98, 98, 99, 99]" and symbols = ?symbols,
          THEN conjunct2]
       constant_parser_consumes_bits constant_parser_ends
  have "parseFlow constant_parser 1000 () [97, 97, 98, 98, 99, 99] ?symbols
          = Inl InvalidParsingPathException"
    by (simp add: length_frombytes)
  with run len show ?thesis by simp
qed

end
